theory Spec2Isabelle
  imports Main "HOL-Library.Word"
begin

unbundle bit_operations_syntax

section \<open>Machine types\<close>

text \<open>
  The program is \<^verbatim>\<open>src/Space Invaders/main.cpp\<close>. Its integers are fixed-width:
  \<^verbatim>\<open>size_t\<close> is taken as 64 bits (an LP64 or LLP64 target), \<^verbatim>\<open>uint32_t\<close> and \<^verbatim>\<open>uint8_t\<close>
  are exact, and C++ \<^verbatim>\<open>int\<close>, \<^verbatim>\<open>GLsizei\<close>, \<^verbatim>\<open>GLint\<close>, \<^verbatim>\<open>GLuint\<close> and \<^verbatim>\<open>GLenum\<close> are 32 bits.
  Words wrap around, as unsigned arithmetic does in C++.
\<close>

type_synonym size_t = "64 word"
type_synonym uint32_t = "32 word"
type_synonym uint8_t = "8 word"
type_synonym GLsizei = "32 word"
type_synonym GLuint = "32 word"
type_synonym GLint = "32 word"
type_synonym GLenum = "32 word"

section \<open>The pixel buffer (class Buffer, lines 9-27)\<close>

text \<open>
  The only exceptions the class can raise come from \<^verbatim>\<open>std::vector::resize\<close>:
  \<^verbatim>\<open>std::length_error\<close> when the requested size is above \<^verbatim>\<open>max_size()\<close>, and
  \<^verbatim>\<open>std::bad_alloc\<close> when the allocator cannot supply the storage. The allocator is
  outside the program, so the number of cells it can still hand out is a parameter
  \<open>heap\<close> of every operation that allocates. The members
  \<^verbatim>\<open>width_\<close>, \<^verbatim>\<open>height_\<close> and \<^verbatim>\<open>image_\<close> are the fields \<open>width_field\<close>,
  \<open>height_field\<close> and \<open>image_field\<close>: a name cannot end in an underscore here.
\<close>

datatype exn = bad_alloc | length_error

record Buffer =
  width_field :: size_t
  height_field :: size_t
  image_field :: "uint32_t list"

text \<open>
  \<^verbatim>\<open>max_size()\<close> of a \<^verbatim>\<open>std::vector<uint32_t>\<close> is fixed by the library, not by the
  program: with libstdc++ on a 64-bit target it is \<^verbatim>\<open>PTRDIFF_MAX / sizeof(uint32_t)\<close>,
  that is \<open>2 ^ 61 - 1\<close> cells.
\<close>

definition max_size :: nat where
  "max_size = 2 ^ 61 - 1"

text \<open>
  \<^verbatim>\<open>image_.resize(n)\<close>: a vector that is long enough is truncated in place; a shorter
  one is grown. Growing first checks the new size against \<^verbatim>\<open>max_size()\<close> and throws
  \<^verbatim>\<open>std::length_error\<close> without allocating; then it needs storage for \<open>n\<close> cells,
  and value-initialises the new cells to 0.
\<close>

definition vector_resize :: "nat \<Rightarrow> uint32_t list \<Rightarrow> nat \<Rightarrow> exn + uint32_t list" where
  "vector_resize heap v n =
     (if n \<le> length v then Inr (take n v)
      else if max_size < n then Inl length_error
      else if heap < n then Inl bad_alloc
      else Inr (v @ replicate (n - length v) 0))"

text \<open>The range-for of \<^verbatim>\<open>ClearImage\<close> (lines 19-21) visits every cell once, in order.\<close>

fun assign_each :: "uint32_t \<Rightarrow> uint32_t list \<Rightarrow> uint32_t list" where
  "assign_each color [] = []"
| "assign_each color (pixel # rest) = color # assign_each color rest"

definition ClearImage :: "uint32_t \<Rightarrow> Buffer \<Rightarrow> Buffer" where
  "ClearImage color b = b\<lparr>image_field := assign_each color (image_field b)\<rparr>"

text \<open>
  The constructor (lines 11-14). \<^verbatim>\<open>width * height\<close> is a \<^verbatim>\<open>size_t\<close> product: it wraps
  modulo \<open>2 ^ 64\<close>. The member \<^verbatim>\<open>image_\<close> starts empty.
\<close>

definition Buffer_ctor :: "nat \<Rightarrow> size_t \<Rightarrow> size_t \<Rightarrow> exn + Buffer" where
  "Buffer_ctor heap width height =
     (case vector_resize heap [] (unat (width * height)) of
        Inl e \<Rightarrow> Inl e
      | Inr v \<Rightarrow> Inr (ClearImage 0 \<lparr>width_field = width, height_field = height, image_field = v\<rparr>))"

definition GetWidth :: "Buffer \<Rightarrow> size_t" where
  "GetWidth b = width_field b"

definition GetHeight :: "Buffer \<Rightarrow> size_t" where
  "GetHeight b = height_field b"

text \<open>\<^verbatim>\<open>GetImage\<close> returns a pointer to the cells; the model returns the cells it points to.\<close>

definition GetImage :: "Buffer \<Rightarrow> uint32_t list" where
  "GetImage b = image_field b"

text \<open>
  The public interface as a set of calls, for properties over every sequence of
  operations on a constructed buffer. The three accessors are \<^verbatim>\<open>const\<close> member
  functions: they leave the object as it is.
\<close>

datatype buffer_call = CallClearImage uint32_t | CallGetWidth | CallGetHeight | CallGetImage

fun call :: "Buffer \<Rightarrow> buffer_call \<Rightarrow> Buffer" where
  "call b (CallClearImage color) = ClearImage color b"
| "call b CallGetWidth = b"
| "call b CallGetHeight = b"
| "call b CallGetImage = b"

fun calls :: "Buffer \<Rightarrow> buffer_call list \<Rightarrow> Buffer" where
  "calls b [] = b"
| "calls b (c # cs) = calls (call b c) cs"

section \<open>Packing a colour (RGBToUint32, lines 49-51)\<close>

text \<open>
  The three \<^verbatim>\<open>uint8_t\<close> arguments are promoted to \<^verbatim>\<open>int\<close> before the shifts, the
  shifts and the \<^verbatim>\<open>|\<close> (left-associative) are done on 32-bit \<^verbatim>\<open>int\<close>, and the result is
  converted to \<^verbatim>\<open>uint32_t\<close>, which keeps the two's-complement bit pattern.
\<close>

definition RGBToUint32 :: "uint8_t \<Rightarrow> uint8_t \<Rightarrow> uint8_t \<Rightarrow> uint32_t" where
  "RGBToUint32 r g b =
     (((push_bit 24 (ucast r :: 32 word) OR push_bit 16 (ucast g)) OR push_bit 8 (ucast b)) OR 255)"

text \<open>
  The program has no unpacking function. The one below reads the three channel bytes
  back from the layout the specification describes (red in the most significant byte,
  then green, then blue); it is used only to state that packing can be undone.
\<close>

definition unpack_channels :: "uint32_t \<Rightarrow> uint8_t \<times> uint8_t \<times> uint8_t" where
  "unpack_channels c = (ucast (drop_bit 24 c), ucast (drop_bit 16 c), ucast (drop_bit 8 c))"

section \<open>The world outside the program\<close>

text \<open>
  \<^verbatim>\<open>main\<close> talks to GLFW, GLEW, OpenGL and the two output streams. The model records
  every such call, in order, as an \<open>event\<close>, and takes every answer of the outside
  world from a record \<open>env\<close>. The headers that define the GL and GLFW macros are not
  part of the repository, so macros passed as arguments are kept as names. The last
  two events, \<^verbatim>\<open>glDeleteProgram\<close> and \<^verbatim>\<open>glDeleteTextures\<close>, are calls the program
  never makes; they are there so that properties about releasing a program object or
  a texture can be stated.
\<close>

datatype glmacro =
    GLFW_OPENGL_PROFILE | GLFW_OPENGL_CORE_PROFILE
  | GLFW_CONTEXT_VERSION_MAJOR | GLFW_CONTEXT_VERSION_MINOR
  | GLFW_OPENGL_FORWARD_COMPAT | GL_TRUE
  | GL_MAJOR_VERSION | GL_MINOR_VERSION | GL_RENDERER | GL_SHADING_LANGUAGE_VERSION
  | GL_VERTEX_SHADER | GL_FRAGMENT_SHADER
  | GL_TEXTURE_2D | GL_RGB8 | GL_RGBA | GL_UNSIGNED_INT_8_8_8_8
  | GL_TEXTURE_MIN_FILTER | GL_TEXTURE_MAG_FILTER | GL_NEAREST
  | GL_TEXTURE_WRAP_S | GL_TEXTURE_WRAP_T | GL_CLAMP_TO_EDGE
  | GL_DEPTH_TEST | GL_TEXTURE0 | GL_TRIANGLES

datatype hint_value = Macro glmacro | Literal int

text \<open>What one \<^verbatim>\<open>stream << a << b << std::endl\<close> statement writes: its operands in order.\<close>

datatype fragment = Str string | Num int | Unsigned nat

type_synonym window = nat

datatype event =
    glfwSetErrorCallback
  | glfwInit
  | glfwWindowHint glmacro hint_value
  | glfwCreateWindow "32 word" "32 word" string
  | glfwTerminate
  | glfwMakeContextCurrent window
  | glewInit
  | glGetIntegerv glmacro
  | glGetError GLenum
  | cerr "fragment list"
  | cout "fragment list"
  | glGetString glmacro
  | glGenVertexArrays int GLuint
  | glCreateProgram GLuint
  | glCreateShader glmacro GLuint
  | glShaderSource GLuint int string
  | glCompileShader GLuint
  | glGetShaderInfoLog GLuint GLsizei
  | glAttachShader GLuint GLuint
  | glDeleteShader GLuint
  | glLinkProgram GLuint
  | glGetProgramInfoLog GLuint GLsizei
  | glDeleteVertexArrays int GLuint
  | glUseProgram GLuint
  | glGenTextures int GLuint
  | glBindTexture glmacro GLuint
  | glTexImage2D glmacro int glmacro GLsizei GLsizei int glmacro glmacro "uint32_t list"
  | glTexParameteri glmacro glmacro glmacro
  | glGetUniformLocation GLuint string
  | glUniform1i GLint int
  | glDisable glmacro
  | glActiveTexture glmacro
  | glBindVertexArray GLuint
  | glfwWindowShouldClose window
  | glTexSubImage2D glmacro int int int GLsizei GLsizei glmacro glmacro "uint32_t list"
  | glDrawArrays glmacro int int
  | glfwSwapBuffers window
  | glfwPollEvents
  | glfwDestroyWindow window
  | glDeleteProgram GLuint
  | glDeleteTextures int GLuint

text \<open>
  The answers of the outside world. \<open>glGetError_pending\<close> is the queue of error flags
  that are set when \<^verbatim>\<open>GLDebug\<close> runs: each \<^verbatim>\<open>glGetError\<close> call returns and clears one,
  and returns \<^verbatim>\<open>GL_NO_ERROR\<close> once none is left. The info logs are the full logs the
  driver holds for a shader or program object. \<open>glfwWindowShouldClose_result i\<close> is
  the answer to the \<open>i\<close>-th query of the frame loop, counted from 0. \<open>heap_cells\<close> is
  the number of \<^verbatim>\<open>uint32_t\<close> cells the allocator can hand out when the buffer is built.
  \<open>string_alloc_result i\<close> says whether the allocator supplies the storage that the
  \<^verbatim>\<open>std::string\<close> of \<^verbatim>\<open>GLDebug\<close> asks for in pass \<open>i\<close> of its loop, counted from 0.
  \<open>GL_LINK_STATUS_value\<close> is the link status that \<^verbatim>\<open>glLinkProgram\<close> leaves in the
  program object: true when the link succeeded. The program never asks for it.
\<close>

record env =
  FILE_macro :: string
  glfwInit_result :: bool
  glfwCreateWindow_result :: "window option"
  glewInit_result :: bool
  GL_MAJOR_VERSION_value :: int
  GL_MINOR_VERSION_value :: int
  glGetError_pending :: "GLenum list"
  GL_RENDERER_string :: string
  GL_SHADING_LANGUAGE_VERSION_string :: string
  string_alloc_result :: "nat \<Rightarrow> bool"
  heap_cells :: nat
  glGenVertexArrays_result :: GLuint
  glCreateProgram_result :: GLuint
  glCreateShader_result :: "glmacro \<Rightarrow> GLuint"
  glGetShaderInfoLog_result :: "GLuint \<Rightarrow> string"
  GL_LINK_STATUS_value :: bool
  glGetProgramInfoLog_result :: "GLuint \<Rightarrow> string"
  glGenTextures_result :: GLuint
  glGetUniformLocation_result :: GLint
  glfwWindowShouldClose_result :: "nat \<Rightarrow> bool"

section \<open>Diagnostics (lines 29-78)\<close>

text \<open>
  \<^verbatim>\<open>ErrorCallback\<close> (lines 29-31) is registered with GLFW, which calls it from inside
  its own functions; \<^verbatim>\<open>main\<close> never calls it.
\<close>

definition ErrorCallback :: "int \<Rightarrow> string \<Rightarrow> event list" where
  "ErrorCallback error description =
     [cerr [Str ''Error ('', Num error, Str ''): '', Str description]]"

text \<open>The error codes of \<^verbatim>\<open>GLDebug\<close>'s switch, with the values the OpenGL headers give them.\<close>

definition GL_NO_ERROR :: GLenum where "GL_NO_ERROR = 0"
definition GL_INVALID_ENUM :: GLenum where "GL_INVALID_ENUM = 0x0500"
definition GL_INVALID_VALUE :: GLenum where "GL_INVALID_VALUE = 0x0501"
definition GL_INVALID_OPERATION :: GLenum where "GL_INVALID_OPERATION = 0x0502"
definition GL_OUT_OF_MEMORY :: GLenum where "GL_OUT_OF_MEMORY = 0x0505"
definition GL_INVALID_FRAMEBUFFER_OPERATION :: GLenum where
  "GL_INVALID_FRAMEBUFFER_OPERATION = 0x0506"

definition errorString :: "GLenum \<Rightarrow> string" where
  "errorString errorNo =
     (if errorNo = GL_INVALID_ENUM then ''GL_INVALID_ENUM''
      else if errorNo = GL_INVALID_VALUE then ''GL_INVALID_VALUE''
      else if errorNo = GL_INVALID_OPERATION then ''GL_INVALID_OPERATION''
      else if errorNo = GL_INVALID_FRAMEBUFFER_OPERATION then ''GL_INVALID_FRAMEBUFFER_OPERATION''
      else if errorNo = GL_OUT_OF_MEMORY then ''GL_OUT_OF_MEMORY''
      else ''UNKNOWN_ERROR'')"

text \<open>
  The local \<^verbatim>\<open>std::string errorString\<close> of \<^verbatim>\<open>GLDebug\<close> holds up to 15 characters
  inside the object (libstdc++ and the Microsoft library on a 64-bit target); the
  assignment of a longer name asks the allocator for storage and throws
  \<^verbatim>\<open>std::bad_alloc\<close> when there is none.
\<close>

definition string_local_capacity :: nat where
  "string_local_capacity = 15"

text \<open>
  \<^verbatim>\<open>GLDebug\<close> (lines 33-47): the loop asks \<^verbatim>\<open>glGetError\<close> until it answers
  \<^verbatim>\<open>GL_NO_ERROR\<close> and writes one line per error. \<open>alloc\<close> is the allocator's answer in
  each pass, \<open>i\<close> the number of the pass, \<open>pending\<close> the queue of pending error
  flags. The result is the calls made and the exception that ended the function, if
  one did.
\<close>

fun GLDebug ::
  "(nat \<Rightarrow> bool) \<Rightarrow> nat \<Rightarrow> GLenum list \<Rightarrow> string \<Rightarrow> int \<Rightarrow> event list \<times> exn option"
where
  "GLDebug alloc i [] file line = ([glGetError GL_NO_ERROR], None)"
| "GLDebug alloc i (errorNo # pending) file line =
     (if GL_NO_ERROR \<noteq> errorNo
      then
        (if string_local_capacity < length (errorString errorNo) \<and> \<not> alloc i
         then ([glGetError errorNo], Some bad_alloc)
         else
           (case GLDebug alloc (Suc i) pending file line of
              (later, thrown) \<Rightarrow>
                (glGetError errorNo
                 # cerr [Str (errorString errorNo), Str '' - '', Str file, Str '' : '', Num line]
                 # later,
                 thrown)))
      else ([glGetError errorNo], None))"

definition BUFFER_SIZE :: GLsizei where
  "BUFFER_SIZE = 512"

text \<open>
  \<^verbatim>\<open>glGetShaderInfoLog\<close> and \<^verbatim>\<open>glGetProgramInfoLog\<close> copy at most \<open>bufSize - 1\<close>
  characters of the log into the buffer and report how many they copied.
\<close>

definition info_log_copy :: "GLsizei \<Rightarrow> string \<Rightarrow> string" where
  "info_log_copy bufSize log = take (unat bufSize - 1) log"

text \<open>\<^verbatim>\<open>ValidateShader\<close> (lines 55-64); \<open>file\<close> is the text the caller passes.\<close>

definition ValidateShader :: "env \<Rightarrow> GLuint \<Rightarrow> string \<Rightarrow> event list" where
  "ValidateShader e shader file =
     (let buffer = info_log_copy BUFFER_SIZE (glGetShaderInfoLog_result e shader);
          length = length buffer
      in glGetShaderInfoLog shader BUFFER_SIZE
         # (if length > 0
            then [cerr [Str ''Shader '', Unsigned (unat shader), Str ''('', Str file,
                        Str '') compile error: '', Str buffer]]
            else []))"

text \<open>\<^verbatim>\<open>ValidateProgram\<close> (lines 66-78): the calls it makes and the value it returns.\<close>

definition ValidateProgram :: "env \<Rightarrow> GLuint \<Rightarrow> event list \<times> bool" where
  "ValidateProgram e program =
     (let buffer = info_log_copy BUFFER_SIZE (glGetProgramInfoLog_result e program);
          length = length buffer
      in if length > 0
         then ([glGetProgramInfoLog program BUFFER_SIZE,
                cerr [Str ''Program '', Unsigned (unat program), Str '' link error: '', Str buffer]],
               False)
         else ([glGetProgramInfoLog program BUFFER_SIZE], True))"

section \<open>The program (main, lines 80-232)\<close>

definition bufferWidth :: size_t where
  "bufferWidth = 224"

definition bufferHeight :: size_t where
  "bufferHeight = 256"

text \<open>The two raw string literals (lines 122-147), line by line; each line ends in a newline.\<close>

definition source_lines :: "string list \<Rightarrow> string" where
  "source_lines ls = concat (map (\<lambda>l. l @ [CHR 0x0A]) ls)"

definition vertexShader :: string where
  "vertexShader = source_lines
     ['''',
      ''#version 330'',
      '''',
      ''noperspective out vec2 TexCoord;'',
      '''',
      ''void main(void) {'',
      ''    TexCoord.x = (2 == gl_VertexID) ? 2.0 : 0.0;'',
      ''    TexCoord.y = (1 == gl_VertexID) ? 2.0 : 0.0;'',
      '''',
      ''    gl_Position = vec4(2.0 * TexCoord - 1.0, 0.0, 1.0);'',
      ''}'']"

definition fragmentShader :: string where
  "fragmentShader = source_lines
     ['''',
      ''#version 330'',
      '''',
      ''uniform sampler2D buffer;'',
      ''noperspective in vec2 TexCoord;'',
      '''',
      ''out vec3 outColor;'',
      '''',
      ''void main(void) {'',
      ''    outColor = texture(buffer, TexCoord).rgb;'',
      ''}'']"

text \<open>How the process ends: \<^verbatim>\<open>main\<close> returns an exit code, or an exception leaves it.\<close>

datatype outcome = Exit int | Uncaught exn

text \<open>Lines 81-83: up to the call of \<^verbatim>\<open>glfwInit\<close>.\<close>

definition init_calls :: "event list" where
  "init_calls = [glfwSetErrorCallback, glfwInit]"

text \<open>Lines 87-96: the window hints and the creation of the window.\<close>

definition window_calls :: "event list" where
  "window_calls =
     [glfwWindowHint GLFW_OPENGL_PROFILE (Macro GLFW_OPENGL_CORE_PROFILE),
      glfwWindowHint GLFW_CONTEXT_VERSION_MAJOR (Literal 3),
      glfwWindowHint GLFW_CONTEXT_VERSION_MINOR (Literal 3),
      glfwWindowHint GLFW_OPENGL_FORWARD_COMPAT (Macro GL_TRUE),
      glfwCreateWindow (ucast bufferWidth) (ucast bufferHeight) ''Space Invaders'']"

text \<open>Lines 102-104: the context is made current and GLEW is initialised.\<close>

definition context_calls :: "window \<Rightarrow> event list" where
  "context_calls window = [glfwMakeContextCurrent window, glewInit]"

text \<open>Lines 110-112: the two version queries.\<close>

definition version_queries :: "event list" where
  "version_queries = [glGetIntegerv GL_MAJOR_VERSION, glGetIntegerv GL_MINOR_VERSION]"

text \<open>Line 114: the one call of \<^verbatim>\<open>GLDebug\<close>, with \<^verbatim>\<open>__FILE__\<close> and \<^verbatim>\<open>__LINE__\<close>.\<close>

definition GLDebug_at_114 :: "env \<Rightarrow> event list \<times> exn option" where
  "GLDebug_at_114 e =
     GLDebug (string_alloc_result e) 0 (glGetError_pending e) (FILE_macro e) 114"

text \<open>Lines 116-118: the banner.\<close>

definition banner_calls :: "env \<Rightarrow> event list" where
  "banner_calls e =
     [cout [Str ''Using OpenGL: '', Num (GL_MAJOR_VERSION_value e), Str ''.'',
            Num (GL_MINOR_VERSION_value e)],
      glGetString GL_RENDERER,
      cout [Str ''Renderer used: '', Str (GL_RENDERER_string e)],
      glGetString GL_SHADING_LANGUAGE_VERSION,
      cout [Str ''Shading Language: '', Str (GL_SHADING_LANGUAGE_VERSION_string e)]]"

text \<open>Lines 110-118 in a run in which \<^verbatim>\<open>GLDebug\<close> returns.\<close>

definition version_calls :: "env \<Rightarrow> event list" where
  "version_calls e = version_queries @ fst (GLDebug_at_114 e) @ banner_calls e"

text \<open>Lines 154-176: one of the two blocks that build a shader stage.\<close>

definition shader_calls :: "env \<Rightarrow> GLuint \<Rightarrow> glmacro \<Rightarrow> string \<Rightarrow> event list" where
  "shader_calls e shaderId kind source =
     (let shader = glCreateShader_result e kind
      in [glCreateShader kind shader,
          glShaderSource shader 1 source,
          glCompileShader shader]
         @ ValidateShader e shader source
         @ [glAttachShader shaderId shader,
            glDeleteShader shader])"

text \<open>Lines 149-178: the vertex array, the program object, both stages, the link.\<close>

definition program_calls :: "env \<Rightarrow> event list" where
  "program_calls e =
     (let fullscreenTriangleVAO = glGenVertexArrays_result e;
          shaderId = glCreateProgram_result e
      in [glGenVertexArrays 1 fullscreenTriangleVAO,
          glCreateProgram shaderId]
         @ shader_calls e shaderId GL_VERTEX_SHADER vertexShader
         @ shader_calls e shaderId GL_FRAGMENT_SHADER fragmentShader
         @ [glLinkProgram shaderId])"

text \<open>Lines 188-210: the program is installed, the texture is created and configured.\<close>

definition texture_calls :: "env \<Rightarrow> Buffer \<Rightarrow> event list" where
  "texture_calls e buffer =
     (let fullscreenTriangleVAO = glGenVertexArrays_result e;
          shaderId = glCreateProgram_result e;
          bufferTexture = glGenTextures_result e;
          location = glGetUniformLocation_result e
      in [glUseProgram shaderId,
          glGenTextures 1 bufferTexture,
          glBindTexture GL_TEXTURE_2D bufferTexture,
          glTexImage2D GL_TEXTURE_2D 0 GL_RGB8
            (ucast (GetWidth buffer)) (ucast (GetHeight buffer)) 0
            GL_RGBA GL_UNSIGNED_INT_8_8_8_8 (GetImage buffer),
          glTexParameteri GL_TEXTURE_2D GL_TEXTURE_MIN_FILTER GL_NEAREST,
          glTexParameteri GL_TEXTURE_2D GL_TEXTURE_MAG_FILTER GL_NEAREST,
          glTexParameteri GL_TEXTURE_2D GL_TEXTURE_WRAP_S GL_CLAMP_TO_EDGE,
          glTexParameteri GL_TEXTURE_2D GL_TEXTURE_WRAP_T GL_CLAMP_TO_EDGE,
          glGetUniformLocation shaderId ''buffer'',
          glUniform1i location 0,
          glDisable GL_DEPTH_TEST,
          glActiveTexture GL_TEXTURE0,
          glBindVertexArray fullscreenTriangleVAO])"

text \<open>
  Lines 213-227: the frame loop. It ends only when \<^verbatim>\<open>glfwWindowShouldClose\<close> answers
  true, so it need not end: \<open>None\<close> is the run that never leaves the loop. \<open>i\<close> counts
  the queries made so far; \<open>buffer\<close> and \<open>t\<close> are the pixel buffer and the calls made
  so far.
\<close>

partial_function (option) frame_loop ::
  "env \<Rightarrow> window \<Rightarrow> uint32_t \<Rightarrow> nat \<Rightarrow> Buffer \<Rightarrow> event list \<Rightarrow> (Buffer \<times> event list) option"
where
  "frame_loop e window clearColor i buffer t =
     (if \<not> glfwWindowShouldClose_result e i
      then
        (let buffer' = ClearImage clearColor buffer
         in frame_loop e window clearColor (Suc i) buffer'
              (t @ [glfwWindowShouldClose window,
                    glTexSubImage2D GL_TEXTURE_2D 0 0 0
                      (ucast (GetWidth buffer')) (ucast (GetHeight buffer'))
                      GL_RGBA GL_UNSIGNED_INT_8_8_8_8 (GetImage buffer'),
                    glDrawArrays GL_TRIANGLES 0 3,
                    glfwSwapBuffers window,
                    glfwPollEvents]))
      else Some (buffer, t @ [glfwWindowShouldClose window]))"

text \<open>
  \<^verbatim>\<open>main\<close>: the outcome and every call made, in order. The arguments \<^verbatim>\<open>argc\<close> and
  \<^verbatim>\<open>argv\<close> are never read. \<^verbatim>\<open>main\<close> has no handler: an exception of \<^verbatim>\<open>GLDebug\<close>
  (line 114) or of the \<^verbatim>\<open>Buffer\<close> constructor (line 120) leaves it.
\<close>

definition main :: "env \<Rightarrow> (outcome \<times> event list) option" where
  "main e =
     (if \<not> glfwInit_result e then Some (Exit (- 1), init_calls)
      else
        (case glfwCreateWindow_result e of
           None \<Rightarrow> Some (Exit (- 1), init_calls @ window_calls @ [glfwTerminate])
         | Some window \<Rightarrow>
             if \<not> glewInit_result e
             then Some (Exit (- 1),
                        init_calls @ window_calls @ context_calls window
                        @ [cerr [Str ''Error initializing GLEW''], glfwTerminate])
             else
               (case GLDebug_at_114 e of
                  (debug, Some x) \<Rightarrow>
                    Some (Uncaught x,
                          init_calls @ window_calls @ context_calls window
                          @ version_queries @ debug)
                | (debug, None) \<Rightarrow>
                    (case Buffer_ctor (heap_cells e) bufferWidth bufferHeight of
                       Inl x \<Rightarrow>
                         Some (Uncaught x,
                               init_calls @ window_calls @ context_calls window
                               @ version_queries @ debug @ banner_calls e)
                     | Inr buffer \<Rightarrow>
                         (let t = init_calls @ window_calls @ context_calls window
                                  @ version_queries @ debug @ banner_calls e
                                  @ program_calls e;
                              (validation, valid) = ValidateProgram e (glCreateProgram_result e)
                          in if \<not> valid
                             then Some (Exit (- 1),
                                        t @ validation
                                        @ [cerr [Str ''Error while validating program''],
                                           glfwTerminate,
                                           glDeleteVertexArrays 1 (glGenVertexArrays_result e)])
                             else
                               (let clearColor = RGBToUint32 0 128 0
                                in case frame_loop e window clearColor 0 buffer
                                          (t @ validation @ texture_calls e buffer) of
                                     None \<Rightarrow> None
                                   | Some (buffer', t') \<Rightarrow>
                                       Some (Exit 0,
                                             t' @ [glfwDestroyWindow window,
                                                   glfwTerminate])))))))"

section \<open>Properties of the recorded calls\<close>

text \<open>
  \<open>is_gl_call\<close> holds of the calls into OpenGL that can set an error flag (every
  \<^verbatim>\<open>gl...\<close> function but \<^verbatim>\<open>glGetError\<close> itself); \<open>is_error_query\<close> holds of
  \<^verbatim>\<open>glGetError\<close>. \<open>every_gl_call_checked\<close> says that each such call is followed, at
  some later point, by a query of the error state.
\<close>

fun is_error_query :: "event \<Rightarrow> bool" where
  "is_error_query (glGetError _) = True"
| "is_error_query _ = False"

fun is_gl_call :: "event \<Rightarrow> bool" where
  "is_gl_call (glGetIntegerv _) = True"
| "is_gl_call (glGetString _) = True"
| "is_gl_call (glGenVertexArrays _ _) = True"
| "is_gl_call (glCreateProgram _) = True"
| "is_gl_call (glCreateShader _ _) = True"
| "is_gl_call (glShaderSource _ _ _) = True"
| "is_gl_call (glCompileShader _) = True"
| "is_gl_call (glGetShaderInfoLog _ _) = True"
| "is_gl_call (glAttachShader _ _) = True"
| "is_gl_call (glDeleteShader _) = True"
| "is_gl_call (glLinkProgram _) = True"
| "is_gl_call (glGetProgramInfoLog _ _) = True"
| "is_gl_call (glDeleteVertexArrays _ _) = True"
| "is_gl_call (glUseProgram _) = True"
| "is_gl_call (glGenTextures _ _) = True"
| "is_gl_call (glBindTexture _ _) = True"
| "is_gl_call (glTexImage2D _ _ _ _ _ _ _ _ _) = True"
| "is_gl_call (glTexParameteri _ _ _) = True"
| "is_gl_call (glGetUniformLocation _ _) = True"
| "is_gl_call (glUniform1i _ _) = True"
| "is_gl_call (glDisable _) = True"
| "is_gl_call (glActiveTexture _) = True"
| "is_gl_call (glBindVertexArray _) = True"
| "is_gl_call (glTexSubImage2D _ _ _ _ _ _ _ _ _) = True"
| "is_gl_call (glDrawArrays _ _ _) = True"
| "is_gl_call (glDeleteProgram _) = True"
| "is_gl_call (glDeleteTextures _ _) = True"
| "is_gl_call _ = False"

fun every_gl_call_checked :: "event list \<Rightarrow> bool" where
  "every_gl_call_checked [] = True"
| "every_gl_call_checked (c # cs) =
     ((if is_gl_call c then list_ex is_error_query cs else True) \<and> every_gl_call_checked cs)"

text \<open>
  \<open>released_in c cs\<close>: if the call \<open>c\<close> creates a graphics object, some later call
  in \<open>cs\<close> deletes that object. \<open>every_object_released\<close> says so of every call. This
  is the weakest reading of "the object is released": it does not ask where the
  deleting call stands. A deletion only takes effect while the context exists, so the
  reading that counts is \<open>every_object_released_in_context\<close>, which asks for the
  deleting call before the first call that destroys the context
  (\<^verbatim>\<open>glfwDestroyWindow\<close> or \<^verbatim>\<open>glfwTerminate\<close>). A run that fails the weak reading fails
  the strict one.
\<close>

fun released_in :: "event \<Rightarrow> event list \<Rightarrow> bool" where
  "released_in (glGenVertexArrays n vao) cs = list_ex (\<lambda>c. c = glDeleteVertexArrays n vao) cs"
| "released_in (glCreateProgram program) cs = list_ex (\<lambda>c. c = glDeleteProgram program) cs"
| "released_in (glCreateShader kind shader) cs = list_ex (\<lambda>c. c = glDeleteShader shader) cs"
| "released_in (glGenTextures n texture) cs = list_ex (\<lambda>c. c = glDeleteTextures n texture) cs"
| "released_in _ cs = True"

fun every_object_released :: "event list \<Rightarrow> bool" where
  "every_object_released [] = True"
| "every_object_released (c # cs) = (released_in c cs \<and> every_object_released cs)"



text \<open>
  What decides how \<^verbatim>\<open>GLDebug\<close> ends at line 114. \<open>pending_errors\<close> are the error flags it
  reads before \<^verbatim>\<open>glGetError\<close> answers \<^verbatim>\<open>GL_NO_ERROR\<close>. \<open>allocation_refused e (i, errorNo)\<close>:
  the name of \<open>errorNo\<close>, read in pass \<open>i\<close>, does not fit the string's own storage and
  the allocator refuses to supply more. \<open>string_allocation_fails\<close>: some pass meets such
  a refusal.
\<close>

definition pending_errors :: "env \<Rightarrow> GLenum list" where
  "pending_errors e = takeWhile (\<lambda>errorNo. errorNo \<noteq> GL_NO_ERROR) (glGetError_pending e)"

definition allocation_refused :: "env \<Rightarrow> nat \<times> GLenum \<Rightarrow> bool" where
  "allocation_refused e =
     (\<lambda>(i, errorNo). string_local_capacity < length (errorString errorNo)
                        \<and> \<not> string_alloc_result e i)"

definition string_allocation_fails :: "env \<Rightarrow> bool" where
  "string_allocation_fails e = list_ex (allocation_refused e) (enumerate 0 (pending_errors e))"

text \<open>Kinds of calls, for statements about the order of acquisition and release.\<close>

fun is_lifecycle_call :: "event \<Rightarrow> bool" where
  "is_lifecycle_call glfwInit = True"
| "is_lifecycle_call (glfwCreateWindow _ _ _) = True"
| "is_lifecycle_call (glfwDestroyWindow _) = True"
| "is_lifecycle_call glfwTerminate = True"
| "is_lifecycle_call _ = False"

fun is_program_or_texture_release :: "event \<Rightarrow> bool" where
  "is_program_or_texture_release (glDeleteProgram _) = True"
| "is_program_or_texture_release (glDeleteTextures _ _) = True"
| "is_program_or_texture_release _ = False"

text \<open>
  The calls of a run that reaches the frame loop, from the first call of \<^verbatim>\<open>main\<close> up
  to the loop: all steps of setup succeeded, \<^verbatim>\<open>GLDebug\<close> returned and
  \<^verbatim>\<open>ValidateProgram\<close> wrote nothing.
\<close>

definition setup_calls :: "env \<Rightarrow> window \<Rightarrow> event list" where
  "setup_calls e window =
     init_calls @ window_calls @ context_calls window @ version_calls e @ program_calls e
     @ [glGetProgramInfoLog (glCreateProgram_result e) BUFFER_SIZE]
     @ texture_calls e \<lparr>width_field = bufferWidth, height_field = bufferHeight,
                         image_field = replicate (224 * 256) 0\<rparr>"

text \<open>
  The calls of one pass through the frame loop that finds \<open>buffer\<close>, the query that
  opens the pass included: the buffer is cleared, then uploaded.
\<close>

definition frame_calls :: "window \<Rightarrow> uint32_t \<Rightarrow> Buffer \<Rightarrow> event list" where
  "frame_calls window clearColor buffer =
     [glfwWindowShouldClose window,
      glTexSubImage2D GL_TEXTURE_2D 0 0 0
        (ucast (GetWidth (ClearImage clearColor buffer)))
        (ucast (GetHeight (ClearImage clearColor buffer)))
        GL_RGBA GL_UNSIGNED_INT_8_8_8_8 (GetImage (ClearImage clearColor buffer)),
      glDrawArrays GL_TRIANGLES 0 3,
      glfwSwapBuffers window,
      glfwPollEvents]"

section \<open>Example runs\<close>

text \<open>
  A run in which everything succeeds: one error flag is pending when \<^verbatim>\<open>GLDebug\<close> is
  called, the allocator never refuses, the vertex stage compiles with a warning, the
  link succeeds and writes no log, and the window is closed after two frames.
\<close>

definition example_env :: env where
  "example_env =
     \<lparr>FILE_macro = ''main.cpp'',
      glfwInit_result = True,
      glfwCreateWindow_result = Some 1,
      glewInit_result = True,
      GL_MAJOR_VERSION_value = 3,
      GL_MINOR_VERSION_value = 3,
      glGetError_pending = [GL_INVALID_ENUM],
      GL_RENDERER_string = ''renderer'',
      GL_SHADING_LANGUAGE_VERSION_string = ''3.30'',
      string_alloc_result = (\<lambda>i. True),
      heap_cells = 224 * 256,
      glGenVertexArrays_result = 1,
      glCreateProgram_result = 3,
      glCreateShader_result = (\<lambda>kind. if kind = GL_VERTEX_SHADER then 1 else 2),
      glGetShaderInfoLog_result = (\<lambda>shader. if shader = 1 then ''warning: unused variable'' else []),
      GL_LINK_STATUS_value = True,
      glGetProgramInfoLog_result = (\<lambda>program. []),
      glGenTextures_result = 1,
      glGetUniformLocation_result = 0,
      glfwWindowShouldClose_result = (\<lambda>i. 2 \<le> i)\<rparr>"

text \<open>The same run, but the link fails and leaves a message in the program's info log.\<close>

definition link_failure_env :: env where
  "link_failure_env =
     example_env\<lparr>GL_LINK_STATUS_value := False,
                  glGetProgramInfoLog_result := (\<lambda>program. ''error: link failed'')\<rparr>"

text \<open>The same run, but the link succeeds and leaves a warning in the program's info log.\<close>

definition link_warning_env :: env where
  "link_warning_env =
     example_env\<lparr>glGetProgramInfoLog_result := (\<lambda>program. ''warning: unused uniform'')\<rparr>"

text \<open>The same run, but the link fails and the driver leaves the info log empty.\<close>

definition silent_link_failure_env :: env where
  "silent_link_failure_env = example_env\<lparr>GL_LINK_STATUS_value := False\<rparr>"

text \<open>The same run, but the allocator has no cell left when the buffer is built.\<close>

definition out_of_memory_env :: env where
  "out_of_memory_env = example_env\<lparr>heap_cells := 0\<rparr>"

text \<open>
  The same run, but the pending error is \<^verbatim>\<open>GL_INVALID_VALUE\<close>, whose name has 16
  characters, and the allocator refuses the string's storage.
\<close>

definition string_out_of_memory_env :: env where
  "string_out_of_memory_env =
     example_env\<lparr>glGetError_pending := [GL_INVALID_VALUE],
                  string_alloc_result := (\<lambda>i. False)\<rparr>"

text \<open>
  \<^verbatim>\<open>GL_STACK_OVERFLOW\<close>, an error code of the OpenGL headers that the switch of
  \<^verbatim>\<open>GLDebug\<close> does not list.
\<close>

definition GL_STACK_OVERFLOW :: GLenum where
  "GL_STACK_OVERFLOW = 0x0503"

text \<open>The calls of the runs \<open>example_env\<close> and \<open>link_warning_env\<close>.\<close>

definition example_calls :: "event list" where
  "example_calls =
     setup_calls example_env 1
     @ concat (replicate 2
         [glfwWindowShouldClose 1,
          glTexSubImage2D GL_TEXTURE_2D 0 0 0 224 256 GL_RGBA GL_UNSIGNED_INT_8_8_8_8
            (replicate (224 * 256) (RGBToUint32 0 128 0)),
          glDrawArrays GL_TRIANGLES 0 3,
          glfwSwapBuffers 1,
          glfwPollEvents])
     @ [glfwWindowShouldClose 1, glfwDestroyWindow 1, glfwTerminate]"


section \<open>The pixel buffer and the colour packing: proofs\<close>

lemma assign_each_replicate: "assign_each color v = replicate (length v) color"
  by (induction v) simp_all

lemma ClearImage_eq:
  "ClearImage color b = b\<lparr>image_field := replicate (length (image_field b)) color\<rparr>"
  by (simp add: ClearImage_def assign_each_replicate)

lemma ClearImage_idem: "ClearImage color (ClearImage color b) = ClearImage color b"
  by (simp add: ClearImage_eq)

lemma GetImage_ClearImage: "GetImage (ClearImage color b) = replicate (length (GetImage b)) color"
  by (simp add: ClearImage_eq GetImage_def)

lemma GetWidth_ClearImage: "GetWidth (ClearImage color b) = GetWidth b"
  by (simp add: ClearImage_eq GetWidth_def)

lemma GetHeight_ClearImage: "GetHeight (ClearImage color b) = GetHeight b"
  by (simp add: ClearImage_eq GetHeight_def)

lemma Buffer_ctor_eq:
  "Buffer_ctor heap width height =
     (if max_size < unat (width * height) then Inl length_error
      else if heap < unat (width * height) then Inl bad_alloc
      else Inr \<lparr>width_field = width, height_field = height,
                 image_field = replicate (unat (width * height)) 0\<rparr>)"
  by (simp add: Buffer_ctor_def vector_resize_def ClearImage_eq max_size_def)

lemma Buffer_ctor_Inr:
  assumes "Buffer_ctor heap W H = Inr b"
  shows "b = \<lparr>width_field = W, height_field = H,
               image_field = replicate (unat (W * H)) 0\<rparr>"
  using assms by (simp add: Buffer_ctor_eq split: if_splits)

lemma unat_size_t_mult: "unat (w * h :: size_t) = (unat w * unat h) mod 2 ^ 64"
  by (simp add: unat_word_ariths)

lemma calls_fields:
  "width_field (calls b cs) = width_field b
   \<and> height_field (calls b cs) = height_field b
   \<and> length (image_field (calls b cs)) = length (image_field b)"
proof (induction cs arbitrary: b)
  case Nil
  show ?case by simp
next
  case (Cons c cs)
  have "width_field (call b c) = width_field b
        \<and> height_field (call b c) = height_field b
        \<and> length (image_field (call b c)) = length (image_field b)"
    by (cases c) (simp_all add: ClearImage_eq)
  with Cons.IH [of "call b c"] show ?case by simp
qed

text \<open>
  C1, as amended. Take a buffer the constructor returns for positive \<open>W\<close> and \<open>H\<close>, in
  whatever state a sequence of later calls has left it, and a colour \<open>C\<close>. After
  \<^verbatim>\<open>ClearImage(C)\<close> the cells of \<^verbatim>\<open>GetImage()\<close> are as many as the \<^verbatim>\<open>size_t\<close> product
  of \<open>W\<close> and \<open>H\<close> (the product modulo \<open>2 ^ 64\<close>), every one of them is \<open>C\<close>, the
  width and the height are still \<open>W\<close> and \<open>H\<close>, and a second \<^verbatim>\<open>ClearImage(C)\<close> changes
  nothing. When \<open>W * H\<close> fits \<^verbatim>\<open>size_t\<close> these are exactly \<open>W * H\<close> cells. \<open>ClearImage\<close>
  is a total function into \<open>Buffer\<close>: it has no failing result.

  As stated (the cells are \<open>W * H\<close> for all positive \<open>W\<close> and \<open>H\<close>) the claim fails on
  the buffer built with \<open>W = H = 2 ^ 32\<close>: it has no cell, before and after the call.
\<close>
theorem ClearImage_sets_every_cell:
  assumes "Buffer_ctor heap W H = Inr b" and "0 < W" and "0 < H"
  shows "GetImage (ClearImage C (calls b cs)) = replicate (unat (W * H)) C
       \<and> unat (W * H) = (unat W * unat H) mod 2 ^ 64
       \<and> (unat W * unat H < 2 ^ 64 \<longrightarrow>
            GetImage (ClearImage C (calls b cs)) = replicate (unat W * unat H) C)
       \<and> GetWidth (ClearImage C (calls b cs)) = W
       \<and> GetHeight (ClearImage C (calls b cs)) = H
       \<and> ClearImage C (ClearImage C (calls b cs)) = ClearImage C (calls b cs)"
proof -
  note b = Buffer_ctor_Inr [OF assms(1)]
  have w: "width_field (calls b cs) = W" and h: "height_field (calls b cs) = H"
    and l: "length (image_field (calls b cs)) = unat (W * H)"
    using calls_fields [of b cs] by (simp_all add: b)
  have cells: "GetImage (ClearImage C (calls b cs)) = replicate (unat (W * H)) C"
    by (simp add: ClearImage_eq GetImage_def l)
  have fits: "unat (W * H) = unat W * unat H" if "unat W * unat H < 2 ^ 64"
    using that by (simp add: unat_size_t_mult)
  have wd: "GetWidth (ClearImage C (calls b cs)) = W"
    by (simp add: ClearImage_eq GetWidth_def w)
  have hd: "GetHeight (ClearImage C (calls b cs)) = H"
    by (simp add: ClearImage_eq GetHeight_def h)
  show ?thesis
    using fits unat_size_t_mult [of W H] by (simp add: cells wd hd ClearImage_idem)
qed

theorem ClearImage_cells_counterexample:
  "(0 :: size_t) < 2 ^ 32
   \<and> Buffer_ctor 0 (2 ^ 32) (2 ^ 32)
       = Inr \<lparr>width_field = 2 ^ 32, height_field = 2 ^ 32, image_field = []\<rparr>
   \<and> GetImage (ClearImage 7 \<lparr>width_field = 2 ^ 32, height_field = 2 ^ 32, image_field = []\<rparr>)
       \<noteq> replicate (unat (2 ^ 32 :: size_t) * unat (2 ^ 32 :: size_t)) 7"
proof -
  have "(0 :: nat) < unat (2 ^ 32 :: size_t) * unat (2 ^ 32 :: size_t)"
    by simp
  then have "replicate (unat (2 ^ 32 :: size_t) * unat (2 ^ 32 :: size_t)) (7 :: uint32_t) \<noteq> []"
    by (simp only: replicate_empty)
  then have "[] \<noteq> replicate (unat (2 ^ 32 :: size_t) * unat (2 ^ 32 :: size_t)) (7 :: uint32_t)"
    by (rule not_sym)
  then show ?thesis
    by (simp add: Buffer_ctor_eq ClearImage_eq GetImage_def del: replicate_empty empty_replicate)
qed

theorem ClearImage_sets_every_cell_witness:
  "Buffer_ctor 16 4 4 = Inr \<lparr>width_field = 4, height_field = 4, image_field = replicate 16 0\<rparr>
   \<and> GetImage (ClearImage 0xFF0000FF
        (calls \<lparr>width_field = 4, height_field = 4, image_field = replicate 16 0\<rparr>
           [CallClearImage 0x008000FF, CallGetImage]))
       = replicate 16 0xFF0000FF"
proof -
  have c: "Buffer_ctor 16 4 4
             = Inr \<lparr>width_field = 4, height_field = 4, image_field = replicate 16 0\<rparr>"
    by (simp add: Buffer_ctor_eq max_size_def)
  show ?thesis
    using ClearImage_sets_every_cell [OF c, of "0xFF0000FF" "[CallClearImage 0x008000FF, CallGetImage]"] c
    by simp
qed

text \<open>
  C2, as amended. For positive \<open>W\<close> and \<open>H\<close> whose product is at most \<^verbatim>\<open>max_size()\<close>:
  when the allocator can supply \<open>W * H\<close> cells the constructor returns a buffer of
  width \<open>W\<close>, height \<open>H\<close> and exactly \<open>W * H\<close> cells, all 0; when it cannot, the
  constructor throws \<^verbatim>\<open>std::bad_alloc\<close>. A product above \<^verbatim>\<open>max_size()\<close> and below
  \<open>2 ^ 64\<close> makes it throw \<^verbatim>\<open>std::length_error\<close>. In general the constructor does with
  the \<^verbatim>\<open>size_t\<close> product, that is with \<open>W * H\<close> modulo \<open>2 ^ 64\<close>, what is said here of
  \<open>W * H\<close>, and it throws nothing else.

  As stated (for all positive \<open>W\<close> and \<open>H\<close>) the claim fails where the \<^verbatim>\<open>size_t\<close>
  product wraps: with \<open>W = H = 2 ^ 32\<close> the product is 0, nothing is allocated, the
  constructor succeeds even with an empty heap, and the buffer has no cell. It also
  fails above \<^verbatim>\<open>max_size()\<close>: with \<open>W = 2 ^ 32\<close> and \<open>H = 2 ^ 31\<close> the constructor
  throws \<^verbatim>\<open>std::length_error\<close> although the allocator could supply every cell.
\<close>
theorem Buffer_ctor_zeroed:
  assumes "0 < W" and "0 < H"
  shows "(unat W * unat H \<le> max_size \<and> unat W * unat H \<le> heap \<longrightarrow>
            (\<exists>b. Buffer_ctor heap W H = Inr b
                \<and> GetWidth b = W \<and> GetHeight b = H
                \<and> length (GetImage b) = unat W * unat H
                \<and> list_all (\<lambda>pixel. pixel = 0) (GetImage b)))
       \<and> (unat W * unat H \<le> max_size \<and> heap < unat W * unat H \<longrightarrow>
            Buffer_ctor heap W H = Inl bad_alloc)
       \<and> (max_size < unat W * unat H \<and> unat W * unat H < 2 ^ 64 \<longrightarrow>
            Buffer_ctor heap W H = Inl length_error)
       \<and> Buffer_ctor heap W H =
            (if max_size < (unat W * unat H) mod 2 ^ 64 then Inl length_error
             else if heap < (unat W * unat H) mod 2 ^ 64 then Inl bad_alloc
             else Inr \<lparr>width_field = W, height_field = H,
                        image_field = replicate ((unat W * unat H) mod 2 ^ 64) 0\<rparr>)"
proof -
  have small: "unat (W * H) = unat W * unat H" if "unat W * unat H \<le> max_size"
  proof -
    from that have "unat W * unat H < 2 ^ 64"
      by (simp add: max_size_def)
    then show ?thesis
      by (simp add: unat_size_t_mult)
  qed
  have fits: "unat (W * H) = unat W * unat H" if "unat W * unat H < 2 ^ 64"
    using that by (simp add: unat_size_t_mult)
  have built: "\<exists>b. Buffer_ctor heap W H = Inr b
                \<and> GetWidth b = W \<and> GetHeight b = H
                \<and> length (GetImage b) = unat W * unat H
                \<and> list_all (\<lambda>pixel. pixel = 0) (GetImage b)"
    if "unat W * unat H \<le> max_size" and "unat W * unat H \<le> heap"
    using that
    by (simp add: Buffer_ctor_eq small GetWidth_def GetHeight_def GetImage_def list_all_iff)
  have refused: "Buffer_ctor heap W H = Inl bad_alloc"
    if "unat W * unat H \<le> max_size" and "heap < unat W * unat H"
    using that by (simp add: Buffer_ctor_eq small)
  have too_long: "Buffer_ctor heap W H = Inl length_error"
    if "max_size < unat W * unat H" and "unat W * unat H < 2 ^ 64"
    using that by (simp add: Buffer_ctor_eq fits)
  have general: "Buffer_ctor heap W H =
            (if max_size < (unat W * unat H) mod 2 ^ 64 then Inl length_error
             else if heap < (unat W * unat H) mod 2 ^ 64 then Inl bad_alloc
             else Inr \<lparr>width_field = W, height_field = H,
                        image_field = replicate ((unat W * unat H) mod 2 ^ 64) 0\<rparr>)"
    unfolding Buffer_ctor_eq unat_size_t_mult ..
  show ?thesis
    using built refused too_long general by blast
qed

theorem Buffer_ctor_length_counterexample:
  "(0 :: size_t) < 2 ^ 32
   \<and> Buffer_ctor 0 (2 ^ 32) (2 ^ 32) = Inr \<lparr>width_field = 2 ^ 32, height_field = 2 ^ 32, image_field = []\<rparr>
   \<and> length (GetImage \<lparr>width_field = 2 ^ 32, height_field = 2 ^ 32, image_field = []\<rparr>)
       \<noteq> unat (2 ^ 32 :: size_t) * unat (2 ^ 32 :: size_t)
   \<and> (0 :: size_t) < 2 ^ 31
   \<and> unat (2 ^ 32 :: size_t) * unat (2 ^ 31 :: size_t) \<le> 2 ^ 64
   \<and> Buffer_ctor (2 ^ 64) (2 ^ 32) (2 ^ 31) = Inl length_error"
  by (simp add: Buffer_ctor_eq GetImage_def max_size_def)

theorem Buffer_ctor_zeroed_witness:
  "(\<exists>b. Buffer_ctor 57344 224 256 = Inr b
        \<and> GetWidth b = 224 \<and> GetHeight b = 256
        \<and> length (GetImage b) = 57344
        \<and> list_all (\<lambda>pixel. pixel = 0) (GetImage b))
   \<and> Buffer_ctor 57343 224 256 = Inl bad_alloc
   \<and> Buffer_ctor (2 ^ 64) (2 ^ 32) (2 ^ 31) = Inl length_error"
proof -
  have "\<exists>b. Buffer_ctor 57344 224 256 = Inr b
        \<and> GetWidth b = 224 \<and> GetHeight b = 256
        \<and> length (GetImage b) = 57344
        \<and> list_all (\<lambda>pixel. pixel = 0) (GetImage b)"
    using Buffer_ctor_zeroed [of 224 256 57344]
    by (simp add: max_size_def GetWidth_def GetHeight_def GetImage_def list_all_iff)
  moreover have "Buffer_ctor 57343 224 256 = Inl bad_alloc"
    using Buffer_ctor_zeroed [of 224 256 57343] by (simp add: max_size_def)
  moreover have "Buffer_ctor (2 ^ 64) (2 ^ 32) (2 ^ 31) = Inl length_error"
    using Buffer_ctor_zeroed [of "2 ^ 32" "2 ^ 31" "2 ^ 64"] by (simp add: max_size_def)
  ultimately show ?thesis by blast
qed

text \<open>
  C4, as amended. For every buffer the constructor returns and every sequence of
  \<^verbatim>\<open>ClearImage\<close>, \<^verbatim>\<open>GetWidth\<close>, \<^verbatim>\<open>GetHeight\<close> and \<^verbatim>\<open>GetImage\<close> calls on it: the number
  of cells equals the \<^verbatim>\<open>size_t\<close> product of width and height (the product modulo
  \<open>2 ^ 64\<close>), which is the product itself whenever that fits \<^verbatim>\<open>size_t\<close>; the number of
  cells is the one the constructor left; and \<^verbatim>\<open>GetWidth()\<close> and \<^verbatim>\<open>GetHeight()\<close> keep
  returning the constructor's arguments.

  As stated the claim fails on the buffer built with \<open>W = H = 2 ^ 32\<close>: it has no cell,
  and width times height is \<open>2 ^ 64\<close>.
\<close>
theorem Buffer_invariant:
  assumes "Buffer_ctor heap W H = Inr b"
  shows "length (GetImage (calls b cs)) = unat (GetWidth (calls b cs) * GetHeight (calls b cs))
       \<and> (unat W * unat H < 2 ^ 64 \<longrightarrow>
            length (GetImage (calls b cs))
              = unat (GetWidth (calls b cs)) * unat (GetHeight (calls b cs)))
       \<and> length (GetImage (calls b cs)) = length (GetImage b)
       \<and> GetWidth (calls b cs) = W
       \<and> GetHeight (calls b cs) = H"
proof -
  note b = Buffer_ctor_Inr [OF assms]
  have w: "width_field (calls b cs) = W" and h: "height_field (calls b cs) = H"
    and l: "length (image_field (calls b cs)) = unat (W * H)"
    using calls_fields [of b cs] by (simp_all add: b)
  have l0: "length (image_field b) = unat (W * H)"
    by (simp add: b)
  show ?thesis
    by (simp add: GetImage_def GetWidth_def GetHeight_def w h l l0 unat_size_t_mult)
qed

theorem Buffer_invariant_counterexample:
  "Buffer_ctor 0 (2 ^ 32) (2 ^ 32)
     = Inr \<lparr>width_field = 2 ^ 32, height_field = 2 ^ 32, image_field = []\<rparr>
   \<and> length (GetImage (calls \<lparr>width_field = 2 ^ 32, height_field = 2 ^ 32, image_field = []\<rparr>
                          [CallClearImage 7, CallGetImage]))
       \<noteq> unat (GetWidth (calls \<lparr>width_field = 2 ^ 32, height_field = 2 ^ 32, image_field = []\<rparr>
                          [CallClearImage 7, CallGetImage]))
         * unat (GetHeight (calls \<lparr>width_field = 2 ^ 32, height_field = 2 ^ 32, image_field = []\<rparr>
                          [CallClearImage 7, CallGetImage]))"
  by (simp add: Buffer_ctor_eq GetImage_def GetWidth_def GetHeight_def ClearImage_eq)

theorem Buffer_invariant_witness:
  "Buffer_ctor 16 4 4 = Inr \<lparr>width_field = 4, height_field = 4, image_field = replicate 16 0\<rparr>
   \<and> length (GetImage (calls \<lparr>width_field = 4, height_field = 4, image_field = replicate 16 0\<rparr>
        [CallClearImage 0, CallGetWidth, CallClearImage 0xFF0000FF, CallGetImage, CallGetHeight]))
       = 16
   \<and> GetWidth (calls \<lparr>width_field = 4, height_field = 4, image_field = replicate 16 0\<rparr>
        [CallClearImage 0, CallGetWidth, CallClearImage 0xFF0000FF, CallGetImage, CallGetHeight])
       = 4
   \<and> GetHeight (calls \<lparr>width_field = 4, height_field = 4, image_field = replicate 16 0\<rparr>
        [CallClearImage 0, CallGetWidth, CallClearImage 0xFF0000FF, CallGetImage, CallGetHeight])
       = 4"
proof -
  have c: "Buffer_ctor 16 4 4
             = Inr \<lparr>width_field = 4, height_field = 4, image_field = replicate 16 0\<rparr>"
    by (simp add: Buffer_ctor_eq max_size_def)
  show ?thesis
    using Buffer_invariant [OF c,
        of "[CallClearImage 0, CallGetWidth, CallClearImage 0xFF0000FF, CallGetImage, CallGetHeight]"] c
    by (simp add: GetImage_def)
qed

lemma pack_as_sum:
  "RGBToUint32 r g b = push_bit 24 (ucast r) + push_bit 16 (ucast g) + push_bit 8 (ucast b) + 255"
proof -
  have d1: "push_bit 24 (ucast r :: 32 word) + push_bit 16 (ucast g)
              = push_bit 24 (ucast r) OR push_bit 16 (ucast g)"
    by (rule disjunctive_add) (auto simp add: bit_simps dest: bit_imp_le_length)
  have d2: "(push_bit 24 (ucast r :: 32 word) OR push_bit 16 (ucast g)) + push_bit 8 (ucast b)
              = (push_bit 24 (ucast r) OR push_bit 16 (ucast g)) OR push_bit 8 (ucast b)"
    by (rule disjunctive_add) (auto simp add: bit_simps dest: bit_imp_le_length)
  have m: "(255 :: 32 word) = mask 8"
    by (simp add: mask_eq_exp_minus_1)
  have d3: "((push_bit 24 (ucast r :: 32 word) OR push_bit 16 (ucast g)) OR push_bit 8 (ucast b))
              + mask 8
              = ((push_bit 24 (ucast r) OR push_bit 16 (ucast g)) OR push_bit 8 (ucast b))
                OR mask 8"
    by (rule disjunctive_add) (auto simp add: bit_simps dest: bit_imp_le_length)
  show ?thesis
    unfolding RGBToUint32_def m using d1 d2 d3 by simp
qed

lemma unat_ucast_8_32: "unat (ucast (x :: 8 word) :: 32 word) = unat x"
  by (simp add: unsigned_ucast_eq take_bit_nat_eq_self unsigned_less [of x, THEN less_trans])

lemma uint8_bound: "unat (x :: 8 word) < 256"
  using unsigned_less [of x, where ?'a = nat] by simp

lemma unat_RGBToUint32:
  "unat (RGBToUint32 r g b) = unat r * 2 ^ 24 + unat g * 2 ^ 16 + unat b * 2 ^ 8 + 255"
proof -
  have r: "unat r < 256" and g: "unat g < 256" and b: "unat b < 256"
    by (rule uint8_bound)+
  have "unat r * 2 ^ 24 + unat g * 2 ^ 16 + unat b * 2 ^ 8 + 255 < 2 ^ 32"
    using r g b by simp
  then show ?thesis
    unfolding pack_as_sum
    by (simp add: unat_word_ariths push_bit_eq_mult unat_ucast_8_32)
qed

lemma red_byte: "ucast (drop_bit 24 (RGBToUint32 r g b)) = r"
  unfolding RGBToUint32_def
  by (rule bit_word_eqI) (auto simp add: bit_simps dest: bit_imp_le_length)

lemma green_byte: "ucast (drop_bit 16 (RGBToUint32 r g b)) = g"
  unfolding RGBToUint32_def
  by (rule bit_word_eqI) (auto simp add: bit_simps dest: bit_imp_le_length)

lemma blue_byte: "ucast (drop_bit 8 (RGBToUint32 r g b)) = b"
  unfolding RGBToUint32_def
  by (rule bit_word_eqI) (auto simp add: bit_simps dest: bit_imp_le_length)

lemma alpha_byte: "ucast (RGBToUint32 r g b) = (255 :: uint8_t)"
  unfolding RGBToUint32_def
  by (rule bit_word_eqI) (auto simp add: bit_simps dest: bit_imp_le_length)

lemma unpack_pack: "unpack_channels (RGBToUint32 r g b) = (r, g, b)"
  by (simp add: unpack_channels_def red_byte green_byte blue_byte)

text \<open>
  C3. Reading the three channel bytes back from \<^verbatim>\<open>RGBToUint32(r, g, b)\<close> gives
  \<open>(r, g, b)\<close> again, for all 8-bit \<open>r\<close>, \<open>g\<close>, \<open>b\<close>; hence two triples with the same
  packed value are the same triple, that is, \<^verbatim>\<open>RGBToUint32\<close> is injective.
\<close>
theorem RGBToUint32_injective:
  "unpack_channels (RGBToUint32 r g b) = (r, g, b)
   \<and> (RGBToUint32 r g b = RGBToUint32 r' g' b' \<longrightarrow> r = r' \<and> g = g' \<and> b = b')
   \<and> inj (\<lambda>(r, g, b). RGBToUint32 r g b)"
proof -
  have i: "r = r' \<and> g = g' \<and> b = b'" if "RGBToUint32 r g b = RGBToUint32 r' g' b'"
    for r g b r' g' b'
  proof -
    from that have "unpack_channels (RGBToUint32 r g b) = unpack_channels (RGBToUint32 r' g' b')"
      by (rule arg_cong)
    then show ?thesis
      by (simp only: unpack_pack prod.inject)
  qed
  have "inj (\<lambda>(r, g, b). RGBToUint32 r g b)"
  proof (rule injI)
    fix x y :: "uint8_t \<times> uint8_t \<times> uint8_t"
    assume eq: "(case x of (r, g, b) \<Rightarrow> RGBToUint32 r g b) = (case y of (r, g, b) \<Rightarrow> RGBToUint32 r g b)"
    obtain r g b where x: "x = (r, g, b)" by (cases x)
    obtain r' g' b' where y: "y = (r', g', b')" by (cases y)
    from eq have "RGBToUint32 r g b = RGBToUint32 r' g' b'"
      by (simp only: x y prod.case)
    then show "x = y"
      using i by (simp only: x y prod.inject)
  qed
  moreover have "RGBToUint32 r g b = RGBToUint32 r' g' b' \<longrightarrow> r = r' \<and> g = g' \<and> b = b'"
    using i by blast
  ultimately show ?thesis
    by (simp only: unpack_pack simp_thms)
qed

theorem RGBToUint32_injective_witness:
  "unpack_channels (RGBToUint32 0 128 0) = (0, 128, 0)
   \<and> RGBToUint32 0 128 0 \<noteq> RGBToUint32 0 128 1"
proof -
  have "RGBToUint32 0 128 0 = RGBToUint32 0 128 1 \<longrightarrow> (128 :: uint8_t) = 128 \<and> (0 :: uint8_t) = 1"
    using RGBToUint32_injective [of 0 128 0 0 128 1] by blast
  then have "RGBToUint32 0 128 0 \<noteq> RGBToUint32 0 128 1"
    by auto
  then show ?thesis
    using RGBToUint32_injective [of 0 128 0 0 128 1] by blast
qed

lemma bytes_of_sum:
  fixes r g b :: nat
  assumes g: "g < 256" and b: "b < 256"
  shows "(r * 2 ^ 24 + g * 2 ^ 16 + b * 2 ^ 8 + 255) div 2 ^ 24 = r"
    and "(r * 2 ^ 24 + g * 2 ^ 16 + b * 2 ^ 8 + 255) div 2 ^ 16 mod 256 = g"
    and "(r * 2 ^ 24 + g * 2 ^ 16 + b * 2 ^ 8 + 255) div 2 ^ 8 mod 256 = b"
    and "(r * 2 ^ 24 + g * 2 ^ 16 + b * 2 ^ 8 + 255) mod 256 = 255"
proof -
  define n where "n = r * 2 ^ 24 + g * 2 ^ 16 + b * 2 ^ 8 + 255"
  define hi where "hi = r * 256 + g"
  define lo1 where "lo1 = g * 65536 + b * 256 + 255"
  define lo2 where "lo2 = b * 256 + 255"
  have lo1: "lo1 < 16777216" and lo2: "lo2 < 65536"
    using g b by (simp_all add: lo1_def lo2_def)
  have e1: "n = lo1 + r * 16777216"
    by (simp add: n_def lo1_def)
  have e2: "n = lo2 + hi * 65536"
    by (simp add: n_def lo2_def hi_def algebra_simps)
  define q where "q = hi * 256 + b"
  have e3: "n = 255 + q * 256"
    by (simp add: n_def hi_def q_def algebra_simps)
  have d1: "n div 16777216 = r"
    unfolding e1 using lo1 by simp
  have d2: "n div 65536 = hi"
    unfolding e2 using lo2 by simp
  have d3: "n div 256 = q"
    unfolding e3 by simp
  have m2: "hi mod 256 = g"
    unfolding hi_def using g by simp
  have m3: "q mod 256 = b"
    unfolding q_def using b by simp
  have m4: "n mod 256 = 255"
    unfolding e3 by simp
  show "(r * 2 ^ 24 + g * 2 ^ 16 + b * 2 ^ 8 + 255) div 2 ^ 24 = r"
    using d1 by (simp add: n_def)
  show "(r * 2 ^ 24 + g * 2 ^ 16 + b * 2 ^ 8 + 255) div 2 ^ 16 mod 256 = g"
    using d2 m2 by (simp add: n_def)
  show "(r * 2 ^ 24 + g * 2 ^ 16 + b * 2 ^ 8 + 255) div 2 ^ 8 mod 256 = b"
    using d3 m3 by (simp add: n_def)
  show "(r * 2 ^ 24 + g * 2 ^ 16 + b * 2 ^ 8 + 255) mod 256 = 255"
    using m4 by (simp add: n_def)
qed

text \<open>
  C10. For all 8-bit \<open>r\<close>, \<open>g\<close>, \<open>b\<close> the value of \<^verbatim>\<open>RGBToUint32(r, g, b)\<close> is
  \<open>r * 2 ^ 24 + g * 2 ^ 16 + b * 2 ^ 8 + 255\<close> (which is below \<open>2 ^ 32\<close>, so the reduction
  modulo \<open>2 ^ 32\<close> changes nothing): red is the most significant byte, then green, then
  blue, and the least significant byte is always 255.
\<close>
theorem RGBToUint32_layout:
  "unat (RGBToUint32 r g b) = (unat r * 2 ^ 24 + unat g * 2 ^ 16 + unat b * 2 ^ 8 + 255) mod 2 ^ 32
   \<and> unat (RGBToUint32 r g b) = unat r * 2 ^ 24 + unat g * 2 ^ 16 + unat b * 2 ^ 8 + 255
   \<and> unat (RGBToUint32 r g b) div 2 ^ 24 = unat r
   \<and> unat (RGBToUint32 r g b) div 2 ^ 16 mod 256 = unat g
   \<and> unat (RGBToUint32 r g b) div 2 ^ 8 mod 256 = unat b
   \<and> unat (RGBToUint32 r g b) mod 256 = 255"
proof -
  have r: "unat r < 256" and g: "unat g < 256" and b: "unat b < 256"
    by (rule uint8_bound)+
  have small: "unat r * 2 ^ 24 + unat g * 2 ^ 16 + unat b * 2 ^ 8 + 255 < 2 ^ 32"
    using r g b by simp
  have m: "(unat r * 2 ^ 24 + unat g * 2 ^ 16 + unat b * 2 ^ 8 + 255) mod 2 ^ 32
             = unat r * 2 ^ 24 + unat g * 2 ^ 16 + unat b * 2 ^ 8 + 255"
    using small by (rule mod_less)
  show ?thesis
    unfolding unat_RGBToUint32 m bytes_of_sum [OF g b] by (simp only: simp_thms)
qed

theorem RGBToUint32_layout_witness:
  "unat (RGBToUint32 0 128 0) = 8388863 \<and> unat (RGBToUint32 0 128 0) mod 256 = 255"
  using RGBToUint32_layout [of 0 128 0] by simp

section \<open>The program: proofs\<close>

subsection \<open>The pieces of setup\<close>

lemma main_bufferWidthHeight: "unat (bufferWidth * bufferHeight) = 57344"
  by (simp add: bufferWidth_def bufferHeight_def)

lemma Buffer_ctor_main:
  "Buffer_ctor heap bufferWidth bufferHeight =
     (if heap < 57344 then Inl bad_alloc
      else Inr \<lparr>width_field = bufferWidth, height_field = bufferHeight,
                 image_field = replicate 57344 0\<rparr>)"
  by (simp add: Buffer_ctor_eq main_bufferWidthHeight max_size_def)

lemma info_log_copy_empty: "info_log_copy BUFFER_SIZE log = [] \<longleftrightarrow> log = []"
  by (simp add: info_log_copy_def BUFFER_SIZE_def)

lemma ValidateProgram_eq:
  "ValidateProgram e program =
     (if glGetProgramInfoLog_result e program = []
      then ([glGetProgramInfoLog program BUFFER_SIZE], True)
      else ([glGetProgramInfoLog program BUFFER_SIZE,
             cerr [Str ''Program '', Unsigned (unat program), Str '' link error: '',
                   Str (info_log_copy BUFFER_SIZE (glGetProgramInfoLog_result e program))]],
            False))"
  by (simp add: ValidateProgram_def Let_def info_log_copy_empty)

lemma ValidateShader_eq:
  "ValidateShader e shader file =
     (if glGetShaderInfoLog_result e shader = []
      then [glGetShaderInfoLog shader BUFFER_SIZE]
      else [glGetShaderInfoLog shader BUFFER_SIZE,
            cerr [Str ''Shader '', Unsigned (unat shader), Str ''('', Str file,
                  Str '') compile error: '',
                  Str (info_log_copy BUFFER_SIZE (glGetShaderInfoLog_result e shader))]])"
  by (simp add: ValidateShader_def Let_def info_log_copy_empty)


subsection \<open>GLDebug\<close>

lemma GLDebug_returns:
  assumes "\<not> list_ex (\<lambda>(k, errorNo). string_local_capacity < length (errorString errorNo)
                                     \<and> \<not> alloc k)
               (enumerate i (takeWhile (\<lambda>errorNo. errorNo \<noteq> GL_NO_ERROR) pending))"
  shows "GLDebug alloc i pending file line =
           (concat (map (\<lambda>errorNo. [glGetError errorNo,
                                     cerr [Str (errorString errorNo), Str '' - '', Str file,
                                           Str '' : '', Num line]])
                        (takeWhile (\<lambda>errorNo. errorNo \<noteq> GL_NO_ERROR) pending))
            @ [glGetError GL_NO_ERROR],
            None)"
  using assms by (induction pending arbitrary: i) (auto split: if_splits)

lemma GLDebug_throws:
  assumes "list_ex (\<lambda>(k, errorNo). string_local_capacity < length (errorString errorNo)
                                   \<and> \<not> alloc k)
             (enumerate i (takeWhile (\<lambda>errorNo. errorNo \<noteq> GL_NO_ERROR) pending))"
  shows "\<exists>logged errorNo later.
           takeWhile (\<lambda>errorNo. errorNo \<noteq> GL_NO_ERROR) pending = logged @ errorNo # later
           \<and> string_local_capacity < length (errorString errorNo)
           \<and> \<not> alloc (i + length logged)
           \<and> GLDebug alloc i pending file line =
               (concat (map (\<lambda>errorNo. [glGetError errorNo,
                                         cerr [Str (errorString errorNo), Str '' - '', Str file,
                                               Str '' : '', Num line]])
                            logged)
                @ [glGetError errorNo],
                Some bad_alloc)"
  using assms
proof (induction pending arbitrary: i)
  case Nil
  then show ?case by simp
next
  case (Cons x xs)
  from Cons.prems have x: "x \<noteq> GL_NO_ERROR"
    by (cases "x = GL_NO_ERROR") simp_all
  show ?case
  proof (cases "string_local_capacity < length (errorString x) \<and> \<not> alloc i")
    case True
    have "takeWhile (\<lambda>errorNo. errorNo \<noteq> GL_NO_ERROR) (x # xs)
            = [] @ x # takeWhile (\<lambda>errorNo. errorNo \<noteq> GL_NO_ERROR) xs"
      using x by simp
    moreover have "\<not> alloc (i + length ([] :: GLenum list))"
      using True by simp
    moreover have "GLDebug alloc i (x # xs) file line =
               (concat (map (\<lambda>errorNo. [glGetError errorNo,
                                         cerr [Str (errorString errorNo), Str '' - '', Str file,
                                               Str '' : '', Num line]])
                            [])
                @ [glGetError x],
                Some bad_alloc)"
      using x True by auto
    ultimately show ?thesis
      using True by blast
  next
    case False
    with Cons.prems x
    have "list_ex (\<lambda>(k, errorNo). string_local_capacity < length (errorString errorNo)
                                   \<and> \<not> alloc k)
             (enumerate (Suc i) (takeWhile (\<lambda>errorNo. errorNo \<noteq> GL_NO_ERROR) xs))"
      by auto
    from Cons.IH [OF this] obtain logged errorNo later
      where split: "takeWhile (\<lambda>errorNo. errorNo \<noteq> GL_NO_ERROR) xs = logged @ errorNo # later"
        and long: "string_local_capacity < length (errorString errorNo)"
        and refused: "\<not> alloc (Suc i + length logged)"
        and run: "GLDebug alloc (Suc i) xs file line =
               (concat (map (\<lambda>errorNo. [glGetError errorNo,
                                         cerr [Str (errorString errorNo), Str '' - '', Str file,
                                               Str '' : '', Num line]])
                            logged)
                @ [glGetError errorNo],
                Some bad_alloc)"
      by blast
    have "takeWhile (\<lambda>errorNo. errorNo \<noteq> GL_NO_ERROR) (x # xs) = (x # logged) @ errorNo # later"
      using x split by simp
    moreover have "\<not> alloc (i + length (x # logged))"
      using refused by simp
    moreover have "GLDebug alloc i (x # xs) file line =
               (concat (map (\<lambda>errorNo. [glGetError errorNo,
                                         cerr [Str (errorString errorNo), Str '' - '', Str file,
                                               Str '' : '', Num line]])
                            (x # logged))
                @ [glGetError errorNo],
                Some bad_alloc)"
      using x False run by auto
    ultimately show ?thesis
      using long by blast
  qed
qed

lemma GLDebug_at_114_returns:
  assumes "\<not> string_allocation_fails e"
  shows "GLDebug_at_114 e =
           (concat (map (\<lambda>errorNo. [glGetError errorNo,
                                     cerr [Str (errorString errorNo), Str '' - '',
                                           Str (FILE_macro e), Str '' : '', Num 114]])
                        (pending_errors e))
            @ [glGetError GL_NO_ERROR],
            None)"
  unfolding GLDebug_at_114_def pending_errors_def
  using assms
  by (intro GLDebug_returns)
     (simp add: string_allocation_fails_def allocation_refused_def pending_errors_def)

lemma GLDebug_at_114_throws:
  assumes "string_allocation_fails e"
  shows "\<exists>logged errorNo later.
           pending_errors e = logged @ errorNo # later
           \<and> string_local_capacity < length (errorString errorNo)
           \<and> \<not> string_alloc_result e (length logged)
           \<and> GLDebug_at_114 e =
               (concat (map (\<lambda>errorNo. [glGetError errorNo,
                                         cerr [Str (errorString errorNo), Str '' - '',
                                               Str (FILE_macro e), Str '' : '', Num 114]])
                            logged)
                @ [glGetError errorNo],
                Some bad_alloc)"
proof -
  from assms
  have "list_ex (\<lambda>(k, errorNo). string_local_capacity < length (errorString errorNo)
                                   \<and> \<not> string_alloc_result e k)
             (enumerate 0 (takeWhile (\<lambda>errorNo. errorNo \<noteq> GL_NO_ERROR) (glGetError_pending e)))"
    by (simp add: string_allocation_fails_def allocation_refused_def pending_errors_def)
  from GLDebug_throws [OF this, of "FILE_macro e" 114] show ?thesis
    by (simp add: GLDebug_at_114_def pending_errors_def)
qed

lemma GLDebug_at_114_snd:
  "snd (GLDebug_at_114 e) = (if string_allocation_fails e then Some bad_alloc else None)"
proof (cases "string_allocation_fails e")
  case True
  from GLDebug_at_114_throws [OF True] show ?thesis
    using True by auto
next
  case False
  then show ?thesis
    by (simp add: GLDebug_at_114_returns)
qed

lemma GLDebug_calls:
  assumes "GLDebug alloc i pending file line = (made, thrown)"
  shows "\<not> list_ex is_program_or_texture_release made \<and> \<not> list_ex is_lifecycle_call made"
  using assms
  by (induction pending arbitrary: i made thrown) (auto split: prod.splits if_splits)

lemma GLDebug_no_release:
  "\<not> list_ex is_program_or_texture_release (fst (GLDebug alloc i pending file line))"
  using GLDebug_calls [of alloc i pending "file" "line"] by (cases "GLDebug alloc i pending file line") simp

lemma GLDebug_no_lifecycle:
  "\<not> list_ex is_lifecycle_call (fst (GLDebug alloc i pending file line))"
  using GLDebug_calls [of alloc i pending "file" "line"] by (cases "GLDebug alloc i pending file line") simp

lemma version_calls_no_release: "\<not> list_ex is_program_or_texture_release (version_calls e)"
  by (simp add: version_calls_def version_queries_def banner_calls_def GLDebug_at_114_def
      GLDebug_no_release)

lemma version_calls_no_lifecycle: "\<not> list_ex is_lifecycle_call (version_calls e)"
  by (simp add: version_calls_def version_queries_def banner_calls_def GLDebug_at_114_def
      GLDebug_no_lifecycle)

lemma program_calls_no_release: "\<not> list_ex is_program_or_texture_release (program_calls e)"
  by (simp add: program_calls_def shader_calls_def ValidateShader_eq Let_def)

lemma program_calls_no_lifecycle: "\<not> list_ex is_lifecycle_call (program_calls e)"
  by (simp add: program_calls_def shader_calls_def ValidateShader_eq Let_def)

lemma program_calls_no_query: "\<not> list_ex is_error_query (program_calls e)"
  by (simp add: program_calls_def shader_calls_def ValidateShader_eq Let_def)

lemma texture_calls_no_release: "\<not> list_ex is_program_or_texture_release (texture_calls e b)"
  by (simp add: texture_calls_def Let_def)

lemma texture_calls_no_lifecycle: "\<not> list_ex is_lifecycle_call (texture_calls e b)"
  by (simp add: texture_calls_def Let_def)

lemma texture_calls_no_query: "\<not> list_ex is_error_query (texture_calls e b)"
  by (simp add: texture_calls_def Let_def)

lemma start_no_release:
  "\<not> list_ex is_program_or_texture_release (init_calls @ window_calls @ context_calls w)"
  by (simp add: init_calls_def window_calls_def context_calls_def)

lemma start_no_query:
  "\<not> list_ex is_error_query init_calls"
  "\<not> list_ex is_error_query (init_calls @ window_calls @ [glfwTerminate])"
  "\<not> list_ex is_error_query
       (init_calls @ window_calls @ context_calls w
        @ [cerr [Str ''Error initializing GLEW''], glfwTerminate])"
  "\<not> list_ex is_error_query (init_calls @ window_calls @ context_calls w @ version_queries)"
  "\<not> list_ex is_error_query (banner_calls e)"
  by (simp_all add: init_calls_def window_calls_def context_calls_def version_queries_def
      banner_calls_def)

lemma list_ex_concat_replicate:
  "list_ex P (concat (replicate n xs)) \<longleftrightarrow> 0 < n \<and> list_ex P xs"
  by (induction n) auto

lemma setup_calls_no_release: "\<not> list_ex is_program_or_texture_release (setup_calls e w)"
  using start_no_release [of w] version_calls_no_release [of e] program_calls_no_release [of e]
    texture_calls_no_release [of e]
  by (simp add: setup_calls_def)

lemma setup_calls_creates:
  "list_ex (\<lambda>c. c = glCreateProgram (glCreateProgram_result e)) (setup_calls e w)"
  "list_ex (\<lambda>c. c = glGenTextures 1 (glGenTextures_result e)) (setup_calls e w)"
  by (simp_all add: setup_calls_def program_calls_def texture_calls_def Let_def)

subsection \<open>The frame loop\<close>

lemma funpow_ClearImage:
  "GetWidth ((ClearImage c ^^ k) b) = GetWidth b"
  "GetHeight ((ClearImage c ^^ k) b) = GetHeight b"
  "length (GetImage ((ClearImage c ^^ k) b)) = length (GetImage b)"
  by (induction k) (simp_all add: GetWidth_ClearImage GetHeight_ClearImage GetImage_ClearImage)

lemma funpow_Suc_ClearImage:
  "GetImage ((ClearImage c ^^ Suc k) b) = replicate (length (GetImage b)) c"
  by (simp add: GetImage_ClearImage funpow_ClearImage)

lemma frame_calls_ClearImage:
  "frame_calls w c (ClearImage c' b) = frame_calls w c b"
  by (simp add: frame_calls_def GetImage_ClearImage GetWidth_ClearImage GetHeight_ClearImage)

lemma frame_calls_funpow:
  "frame_calls w c ((ClearImage c' ^^ k) b) = frame_calls w c b"
  by (induction k) (simp_all add: frame_calls_ClearImage)

lemma frame_loop_open:
  assumes "\<not> glfwWindowShouldClose_result e i"
  shows "frame_loop e w c i b t =
           frame_loop e w c (Suc i) (ClearImage c b) (t @ frame_calls w c b)"
  using assms by (subst frame_loop.simps) (simp add: Let_def frame_calls_def)

lemma frame_loop_closed:
  assumes "glfwWindowShouldClose_result e i"
  shows "frame_loop e w c i b t = Some (b, t @ [glfwWindowShouldClose w])"
  using assms by (subst frame_loop.simps) simp

lemma frame_loop_passes:
  assumes "\<forall>j<n. \<not> glfwWindowShouldClose_result e (i + j)"
  shows "frame_loop e w c i b t =
           frame_loop e w c (i + n) ((ClearImage c ^^ n) b)
             (t @ concat (map (\<lambda>k. frame_calls w c ((ClearImage c ^^ k) b)) [0..<n]))"
  using assms
proof (induction n arbitrary: i b t)
  case 0
  then show ?case by simp
next
  case (Suc n)
  have open0: "\<not> glfwWindowShouldClose_result e i"
    using Suc.prems by force
  have later: "\<forall>j<n. \<not> glfwWindowShouldClose_result e (Suc i + j)"
    using Suc.prems by force
  have shift: "map (\<lambda>k. frame_calls w c ((ClearImage c ^^ k) b)) [0..<Suc n]
                 = frame_calls w c b
                   # map (\<lambda>k. frame_calls w c ((ClearImage c ^^ k) (ClearImage c b))) [0..<n]"
    by (simp only: map_upt_Suc funpow_Suc_right o_apply funpow_0)
  show ?case
    unfolding frame_loop_open [OF open0] Suc.IH [OF later] shift
    by (simp add: funpow_swap1)
qed

lemma frame_loop_closes:
  assumes "\<forall>j<n. \<not> glfwWindowShouldClose_result e (i + j)"
    and "glfwWindowShouldClose_result e (i + n)"
  shows "frame_loop e w c i b t =
           Some ((ClearImage c ^^ n) b,
                 t @ concat (map (\<lambda>k. frame_calls w c ((ClearImage c ^^ k) b)) [0..<n])
                 @ [glfwWindowShouldClose w])"
  unfolding frame_loop_passes [OF assms(1)] frame_loop_closed [OF assms(2)] by simp

lemma frame_loop_Some:
  assumes "frame_loop e w c i b t = Some r"
  shows "\<exists>n. glfwWindowShouldClose_result e (i + n)"
proof (rule frame_loop.raw_induct
    [where P = "\<lambda>e w c i b t r. \<exists>n. glfwWindowShouldClose_result e (i + n)", OF _ assms],
    goal_cases)
  case (1 f e w c i b t r)
  show ?case
  proof (cases "glfwWindowShouldClose_result e i")
    case True
    then have "glfwWindowShouldClose_result e (i + 0)" by simp
    then show ?thesis by blast
  next
    case False
    with 1(2) have "\<exists>b' t'. f e w c (Suc i) b' t' = Some r"
      by (auto simp add: Let_def)
    then obtain n where "glfwWindowShouldClose_result e (Suc i + n)"
      using 1(1) by blast
    then have "glfwWindowShouldClose_result e (i + Suc n)" by simp
    then show ?thesis by blast
  qed
qed

lemma frame_loop_never:
  assumes "\<forall>n. \<not> glfwWindowShouldClose_result e n"
  shows "frame_loop e w c i b t = None"
proof (cases "frame_loop e w c i b t")
  case None
  then show ?thesis .
next
  case (Some r)
  then show ?thesis
    using frame_loop_Some [OF Some] assms by blast
qed

lemma first_close:
  assumes "glfwWindowShouldClose_result e m"
  obtains n where "\<forall>j<n. \<not> glfwWindowShouldClose_result e j"
    and "glfwWindowShouldClose_result e n"
proof -
  define n where "n = (LEAST k. glfwWindowShouldClose_result e k)"
  have "glfwWindowShouldClose_result e n"
    unfolding n_def using assms by (rule LeastI)
  moreover have "\<forall>j<n. \<not> glfwWindowShouldClose_result e j"
    unfolding n_def using not_less_Least by blast
  ultimately show ?thesis using that by blast
qed

lemma frame_loop_env:
  assumes "glfwWindowShouldClose_result e' = glfwWindowShouldClose_result e"
  shows "frame_loop e' w c 0 b t = frame_loop e w c 0 b t"
proof (cases "\<exists>m. glfwWindowShouldClose_result e m")
  case True
  then obtain m where "glfwWindowShouldClose_result e m" ..
  then obtain n where o: "\<forall>j<n. \<not> glfwWindowShouldClose_result e (0 + j)"
    and c: "glfwWindowShouldClose_result e (0 + n)"
    by (rule first_close) simp
  from o c assms have o': "\<forall>j<n. \<not> glfwWindowShouldClose_result e' (0 + j)"
    and c': "glfwWindowShouldClose_result e' (0 + n)"
    by simp_all
  show ?thesis
    unfolding frame_loop_closes [OF o c] frame_loop_closes [OF o' c'] ..
next
  case False
  then have n: "\<forall>n. \<not> glfwWindowShouldClose_result e n" by simp
  with assms have n': "\<forall>n. \<not> glfwWindowShouldClose_result e' n" by simp
  show ?thesis
    unfolding frame_loop_never [OF n] frame_loop_never [OF n'] ..
qed

lemma main_frame_calls:
  "frame_calls w c \<lparr>width_field = bufferWidth, height_field = bufferHeight,
                      image_field = replicate 57344 0\<rparr> =
     [glfwWindowShouldClose w,
      glTexSubImage2D GL_TEXTURE_2D 0 0 0 224 256 GL_RGBA GL_UNSIGNED_INT_8_8_8_8
        (replicate 57344 c),
      glDrawArrays GL_TRIANGLES 0 3,
      glfwSwapBuffers w,
      glfwPollEvents]"
  by (simp add: frame_calls_def GetWidth_def GetHeight_def GetImage_def bufferWidth_def
      bufferHeight_def ClearImage_eq)

lemma frames_constant:
  "concat (map (\<lambda>k. frame_calls w c ((ClearImage c ^^ k) b)) [0..<n])
     = concat (replicate n (frame_calls w c b))"
  by (simp add: frame_calls_funpow map_replicate_const)

subsection \<open>The paths through main\<close>

lemma main_no_glfw:
  assumes "\<not> glfwInit_result e"
  shows "main e = Some (Exit (- 1), init_calls)"
  using assms by (simp add: main_def)

lemma main_no_window:
  assumes "glfwInit_result e" and "glfwCreateWindow_result e = None"
  shows "main e = Some (Exit (- 1), init_calls @ window_calls @ [glfwTerminate])"
  using assms by (simp add: main_def)

lemma main_no_glew:
  assumes "glfwInit_result e" and "glfwCreateWindow_result e = Some w"
    and "\<not> glewInit_result e"
  shows "main e = Some (Exit (- 1),
           init_calls @ window_calls @ context_calls w
           @ [cerr [Str ''Error initializing GLEW''], glfwTerminate])"
  using assms by (simp add: main_def)

lemma main_no_string:
  assumes "glfwInit_result e" and "glfwCreateWindow_result e = Some w"
    and "glewInit_result e" and "string_allocation_fails e"
  shows "main e = Some (Uncaught bad_alloc,
           init_calls @ window_calls @ context_calls w @ version_queries
           @ fst (GLDebug_at_114 e))"
proof -
  have "snd (GLDebug_at_114 e) = Some bad_alloc"
    using assms(4) by (simp add: GLDebug_at_114_snd)
  then obtain debug where "GLDebug_at_114 e = (debug, Some bad_alloc)"
    by (cases "GLDebug_at_114 e") simp
  then show ?thesis
    using assms(1-3) by (simp add: main_def)
qed

lemma GLDebug_at_114_None:
  assumes "\<not> string_allocation_fails e"
  shows "GLDebug_at_114 e = (fst (GLDebug_at_114 e), None)"
proof -
  have "snd (GLDebug_at_114 e) = None"
    using assms by (simp add: GLDebug_at_114_snd)
  then show ?thesis
    by (cases "GLDebug_at_114 e") simp
qed

lemma main_reaches:
  assumes "glfwInit_result e" and "glfwCreateWindow_result e = Some w"
    and "glewInit_result e" and "\<not> string_allocation_fails e"
  shows "main e =
     (case Buffer_ctor (heap_cells e) bufferWidth bufferHeight of
        Inl x \<Rightarrow>
          Some (Uncaught x, init_calls @ window_calls @ context_calls w @ version_calls e)
      | Inr buffer \<Rightarrow>
          (let t = init_calls @ window_calls @ context_calls w @ version_calls e
                   @ program_calls e;
               (validation, valid) = ValidateProgram e (glCreateProgram_result e)
           in if \<not> valid
              then Some (Exit (- 1),
                         t @ validation
                         @ [cerr [Str ''Error while validating program''],
                            glfwTerminate,
                            glDeleteVertexArrays 1 (glGenVertexArrays_result e)])
              else
                (case frame_loop e w (RGBToUint32 0 128 0) 0 buffer
                           (t @ validation @ texture_calls e buffer) of
                      None \<Rightarrow> None
                    | Some (buffer', t') \<Rightarrow>
                        Some (Exit 0, t' @ [glfwDestroyWindow w, glfwTerminate]))))"
  using assms(1-3)
  by (subst main_def, subst GLDebug_at_114_None [OF assms(4)])
     (simp add: version_calls_def Let_def split: sum.split prod.split)

lemma main_no_memory:
  assumes "glfwInit_result e" and "glfwCreateWindow_result e = Some w"
    and "glewInit_result e" and "\<not> string_allocation_fails e"
    and "heap_cells e < 57344"
  shows "main e = Some (Uncaught bad_alloc,
           init_calls @ window_calls @ context_calls w @ version_calls e)"
  using assms(5) by (simp add: main_reaches [OF assms(1-4)] Buffer_ctor_main)

lemma main_link_failure:
  assumes "glfwInit_result e" and "glfwCreateWindow_result e = Some w"
    and "glewInit_result e" and "\<not> string_allocation_fails e"
    and "57344 \<le> heap_cells e"
    and "glGetProgramInfoLog_result e (glCreateProgram_result e) \<noteq> []"
  shows "main e = Some (Exit (- 1),
           init_calls @ window_calls @ context_calls w @ version_calls e @ program_calls e
           @ [glGetProgramInfoLog (glCreateProgram_result e) BUFFER_SIZE,
              cerr [Str ''Program '', Unsigned (unat (glCreateProgram_result e)),
                    Str '' link error: '',
                    Str (info_log_copy BUFFER_SIZE
                           (glGetProgramInfoLog_result e (glCreateProgram_result e)))],
              cerr [Str ''Error while validating program''],
              glfwTerminate,
              glDeleteVertexArrays 1 (glGenVertexArrays_result e)])"
  using assms(5,6)
  by (simp add: main_reaches [OF assms(1-4)] Buffer_ctor_main ValidateProgram_eq)

lemma main_frames:
  assumes "glfwInit_result e" and "glfwCreateWindow_result e = Some w"
    and "glewInit_result e" and "\<not> string_allocation_fails e"
    and "57344 \<le> heap_cells e"
    and "glGetProgramInfoLog_result e (glCreateProgram_result e) = []"
  shows "main e =
           (case frame_loop e w (RGBToUint32 0 128 0) 0
                   \<lparr>width_field = bufferWidth, height_field = bufferHeight,
                      image_field = replicate 57344 0\<rparr>
                   (setup_calls e w) of
              None \<Rightarrow> None
            | Some (buffer', t') \<Rightarrow>
                Some (Exit 0, t' @ [glfwDestroyWindow w, glfwTerminate]))"
  using assms(5,6)
  by (simp add: main_reaches [OF assms(1-4)] Buffer_ctor_main ValidateProgram_eq setup_calls_def)

lemma main_passes:
  assumes "glfwInit_result e" and "glfwCreateWindow_result e = Some w"
    and "glewInit_result e" and "\<not> string_allocation_fails e"
    and "57344 \<le> heap_cells e"
    and "glGetProgramInfoLog_result e (glCreateProgram_result e) = []"
    and "\<forall>j<n. \<not> glfwWindowShouldClose_result e j"
  shows "main e =
           (case frame_loop e w (RGBToUint32 0 128 0) n
                   ((ClearImage (RGBToUint32 0 128 0) ^^ n)
                      \<lparr>width_field = bufferWidth, height_field = bufferHeight,
                         image_field = replicate 57344 0\<rparr>)
                   (setup_calls e w
                    @ concat (replicate n
                        [glfwWindowShouldClose w,
                         glTexSubImage2D GL_TEXTURE_2D 0 0 0 224 256
                           GL_RGBA GL_UNSIGNED_INT_8_8_8_8
                           (replicate 57344 (RGBToUint32 0 128 0)),
                         glDrawArrays GL_TRIANGLES 0 3,
                         glfwSwapBuffers w,
                         glfwPollEvents])) of
              None \<Rightarrow> None
            | Some (buffer', t') \<Rightarrow>
                Some (Exit 0, t' @ [glfwDestroyWindow w, glfwTerminate]))"
proof -
  have open_until: "\<forall>j<n. \<not> glfwWindowShouldClose_result e (0 + j)"
    using assms(7) by simp
  show ?thesis
    unfolding main_frames [OF assms(1-6)] frame_loop_passes [OF open_until] frames_constant
      main_frame_calls
    by simp
qed

lemma main_normal:
  assumes "glfwInit_result e" and "glfwCreateWindow_result e = Some w"
    and "glewInit_result e" and "\<not> string_allocation_fails e"
    and "57344 \<le> heap_cells e"
    and "glGetProgramInfoLog_result e (glCreateProgram_result e) = []"
    and "\<forall>j<n. \<not> glfwWindowShouldClose_result e j"
    and "glfwWindowShouldClose_result e n"
  shows "main e = Some (Exit 0,
           setup_calls e w
           @ concat (replicate n
               [glfwWindowShouldClose w,
                glTexSubImage2D GL_TEXTURE_2D 0 0 0 224 256 GL_RGBA GL_UNSIGNED_INT_8_8_8_8
                  (replicate 57344 (RGBToUint32 0 128 0)),
                glDrawArrays GL_TRIANGLES 0 3,
                glfwSwapBuffers w,
                glfwPollEvents])
           @ [glfwWindowShouldClose w, glfwDestroyWindow w, glfwTerminate])"
  unfolding main_passes [OF assms(1-7)] frame_loop_closed [OF assms(8)]
  by simp

lemma main_never:
  assumes "glfwInit_result e" and "glfwCreateWindow_result e = Some w"
    and "glewInit_result e" and "\<not> string_allocation_fails e"
    and "57344 \<le> heap_cells e"
    and "glGetProgramInfoLog_result e (glCreateProgram_result e) = []"
    and "\<forall>n. \<not> glfwWindowShouldClose_result e n"
  shows "main e = None"
  unfolding main_frames [OF assms(1-6)] frame_loop_never [OF assms(7)] by simp

lemma main_closes:
  assumes "glfwInit_result e" and "glfwCreateWindow_result e = Some w"
    and "glewInit_result e" and "\<not> string_allocation_fails e"
    and "57344 \<le> heap_cells e"
    and "glGetProgramInfoLog_result e (glCreateProgram_result e) = []"
    and "glfwWindowShouldClose_result e m"
  shows "map_option fst (main e) = Some (Exit 0)"
proof -
  from assms(7) obtain n where o: "\<forall>j<n. \<not> glfwWindowShouldClose_result e j"
    and c: "glfwWindowShouldClose_result e n"
    by (rule first_close)
  show ?thesis
    by (simp add: main_normal [OF assms(1-6) o c])
qed

lemma main_Some_closes:
  assumes "glfwInit_result e" and "glfwCreateWindow_result e = Some w"
    and "glewInit_result e" and "\<not> string_allocation_fails e"
    and "57344 \<le> heap_cells e"
    and "glGetProgramInfoLog_result e (glCreateProgram_result e) = []"
    and "main e = Some r"
  obtains n where "\<forall>j<n. \<not> glfwWindowShouldClose_result e j"
    and "glfwWindowShouldClose_result e n"
proof -
  have "\<exists>m. glfwWindowShouldClose_result e m"
    using main_never [OF assms(1-6)] assms(7) by fastforce
  then obtain m where "glfwWindowShouldClose_result e m" ..
  then show ?thesis
    using that by (rule first_close)
qed

lemma main_cases
  [case_names no_glfw no_window no_glew no_string no_memory link_failure frames]:
  obtains "\<not> glfwInit_result e"
  | "glfwInit_result e" and "glfwCreateWindow_result e = None"
  | w where "glfwInit_result e" and "glfwCreateWindow_result e = Some w"
      and "\<not> glewInit_result e"
  | w where "glfwInit_result e" and "glfwCreateWindow_result e = Some w"
      and "glewInit_result e" and "string_allocation_fails e"
  | w where "glfwInit_result e" and "glfwCreateWindow_result e = Some w"
      and "glewInit_result e" and "\<not> string_allocation_fails e"
      and "heap_cells e < 57344"
  | w where "glfwInit_result e" and "glfwCreateWindow_result e = Some w"
      and "glewInit_result e" and "\<not> string_allocation_fails e"
      and "57344 \<le> heap_cells e"
      and "glGetProgramInfoLog_result e (glCreateProgram_result e) \<noteq> []"
  | w where "glfwInit_result e" and "glfwCreateWindow_result e = Some w"
      and "glewInit_result e" and "\<not> string_allocation_fails e"
      and "57344 \<le> heap_cells e"
      and "glGetProgramInfoLog_result e (glCreateProgram_result e) = []"
proof (cases "glfwCreateWindow_result e")
  case None
  then show ?thesis using that(1,2) by blast
next
  case (Some w)
  then show ?thesis
    using that(1) that(3-7) [of w] by (cases "heap_cells e < 57344") auto
qed

lemma main_Exit_0:
  assumes "main e = Some (Exit 0, tr)"
  obtains w n where "glfwInit_result e" and "glfwCreateWindow_result e = Some w"
    and "glewInit_result e" and "\<not> string_allocation_fails e"
    and "57344 \<le> heap_cells e"
    and "glGetProgramInfoLog_result e (glCreateProgram_result e) = []"
    and "\<forall>j<n. \<not> glfwWindowShouldClose_result e j" and "glfwWindowShouldClose_result e n"
proof (cases e rule: main_cases)
  case no_glfw
  with assms show ?thesis by (simp add: main_no_glfw)
next
  case no_window
  with assms show ?thesis by (simp add: main_no_window)
next
  case (no_glew w)
  with assms show ?thesis by (simp add: main_no_glew)
next
  case (no_string w)
  with assms show ?thesis by (simp add: main_no_string)
next
  case (no_memory w)
  with assms show ?thesis by (simp add: main_no_memory)
next
  case (link_failure w)
  with assms show ?thesis by (simp add: main_link_failure)
next
  case (frames w)
  from frames assms obtain n
    where "\<forall>j<n. \<not> glfwWindowShouldClose_result e j" and "glfwWindowShouldClose_result e n"
    by (rule main_Some_closes)
  with frames that show ?thesis by blast
qed

lemma main_link_status: "main (e\<lparr>GL_LINK_STATUS_value := s\<rparr>) = main e"
proof -
  have loop: "frame_loop (e\<lparr>GL_LINK_STATUS_value := s\<rparr>) w c 0 b t = frame_loop e w c 0 b t"
    for w c b t
    by (rule frame_loop_env) simp
  have parts:
    "GLDebug_at_114 (e\<lparr>GL_LINK_STATUS_value := s\<rparr>) = GLDebug_at_114 e"
    "banner_calls (e\<lparr>GL_LINK_STATUS_value := s\<rparr>) = banner_calls e"
    "program_calls (e\<lparr>GL_LINK_STATUS_value := s\<rparr>) = program_calls e"
    "ValidateProgram (e\<lparr>GL_LINK_STATUS_value := s\<rparr>) = ValidateProgram e"
    "texture_calls (e\<lparr>GL_LINK_STATUS_value := s\<rparr>) = texture_calls e"
    by (simp_all add: GLDebug_at_114_def banner_calls_def program_calls_def shader_calls_def
        ValidateShader_def ValidateProgram_def texture_calls_def fun_eq_iff)
  have fields:
    "glfwInit_result (e\<lparr>GL_LINK_STATUS_value := s\<rparr>) = glfwInit_result e"
    "glfwCreateWindow_result (e\<lparr>GL_LINK_STATUS_value := s\<rparr>) = glfwCreateWindow_result e"
    "glewInit_result (e\<lparr>GL_LINK_STATUS_value := s\<rparr>) = glewInit_result e"
    "heap_cells (e\<lparr>GL_LINK_STATUS_value := s\<rparr>) = heap_cells e"
    "glCreateProgram_result (e\<lparr>GL_LINK_STATUS_value := s\<rparr>) = glCreateProgram_result e"
    "glGenVertexArrays_result (e\<lparr>GL_LINK_STATUS_value := s\<rparr>) = glGenVertexArrays_result e"
    by simp_all
  show ?thesis
    unfolding main_def loop parts fields by (rule refl)
qed

lemma frames_no_release:
  "\<not> list_ex is_program_or_texture_release
       (concat (replicate n
          [glfwWindowShouldClose w,
           glTexSubImage2D GL_TEXTURE_2D 0 0 0 224 256 GL_RGBA GL_UNSIGNED_INT_8_8_8_8
             (replicate 57344 c),
           glDrawArrays GL_TRIANGLES 0 3,
           glfwSwapBuffers w,
           glfwPollEvents]))"
  by (simp add: list_ex_concat_replicate)

lemma frames_no_lifecycle:
  "\<not> list_ex is_lifecycle_call
       (concat (replicate n
          [glfwWindowShouldClose w,
           glTexSubImage2D GL_TEXTURE_2D 0 0 0 224 256 GL_RGBA GL_UNSIGNED_INT_8_8_8_8
             (replicate 57344 c),
           glDrawArrays GL_TRIANGLES 0 3,
           glfwSwapBuffers w,
           glfwPollEvents]))"
  by (simp add: list_ex_concat_replicate)

lemma frames_no_query:
  "\<not> list_ex is_error_query
       (concat (replicate n
          [glfwWindowShouldClose w,
           glTexSubImage2D GL_TEXTURE_2D 0 0 0 224 256 GL_RGBA GL_UNSIGNED_INT_8_8_8_8
             (replicate 57344 c),
           glDrawArrays GL_TRIANGLES 0 3,
           glfwSwapBuffers w,
           glfwPollEvents]))"
  by (simp add: list_ex_concat_replicate)

subsection \<open>The example runs\<close>

lemma example_env_no_refusal: "\<not> string_allocation_fails example_env"
  by (simp add: string_allocation_fails_def allocation_refused_def example_env_def
      list_ex_iff split: prod.splits)

lemma example_env_fields:
  "glfwInit_result example_env"
  "glfwCreateWindow_result example_env = Some 1"
  "glewInit_result example_env"
  "\<not> string_allocation_fails example_env"
  "57344 \<le> heap_cells example_env"
  "glGetProgramInfoLog_result example_env (glCreateProgram_result example_env) = []"
  "\<forall>j<2. \<not> glfwWindowShouldClose_result example_env j"
  "glfwWindowShouldClose_result example_env 2"
  by (simp_all add: example_env_no_refusal) (simp_all add: example_env_def)

lemma main_example_env: "main example_env = Some (Exit 0, example_calls)"
  unfolding example_calls_def using main_normal [OF example_env_fields] by simp

subsection \<open>The frame loop, as main runs it\<close>

text \<open>
  C7. A run that reaches the frame loop enters it with the buffer the constructor
  built and the packed colour \<open>(0, 128, 0)\<close>. Every pass of the loop, whatever buffer
  \<open>b\<close> and colour \<open>c\<close> it runs with, asks \<^verbatim>\<open>glfwWindowShouldClose\<close> first. On the answer
  false it clears the buffer to \<open>c\<close> (the next pass finds \<open>ClearImage c b\<close>), then gives
  \<^verbatim>\<open>glTexSubImage2D\<close> the offset \<open>(0, 0)\<close>, the buffer's width and height as the
  extent and all cells of the cleared buffer, every one of them \<open>c\<close> whatever \<open>b\<close>
  held, then calls \<^verbatim>\<open>glDrawArrays(GL_TRIANGLES, 0, 3)\<close>, \<^verbatim>\<open>glfwSwapBuffers\<close> and
  \<^verbatim>\<open>glfwPollEvents\<close>: these five calls, in this order, and no other. On the answer
  true the loop ends and leaves the buffer as it is. So when the first true answer
  comes after \<open>n\<close> passes, the loop has made \<open>n\<close> times these five calls and then the
  last query, and \<^verbatim>\<open>main\<close> has made the calls of setup, \<open>n\<close> times the five calls with
  extent 224 by 256 and \<open>224 * 256\<close> cells of the background colour, the last query
  and the teardown. No texture is created inside the loop. If no answer is ever
  true, \<^verbatim>\<open>main\<close> does not return.
\<close>
theorem frame_loop_steps:
  assumes "glfwInit_result e" and "glfwCreateWindow_result e = Some w"
    and "glewInit_result e" and "\<not> string_allocation_fails e"
    and "224 * 256 \<le> heap_cells e"
    and "glGetProgramInfoLog_result e (glCreateProgram_result e) = []"
  shows "main e =
           (case frame_loop e w (RGBToUint32 0 128 0) 0
                   \<lparr>width_field = bufferWidth, height_field = bufferHeight,
                      image_field = replicate (224 * 256) 0\<rparr>
                   (setup_calls e w) of
              None \<Rightarrow> None
            | Some (buffer', t') \<Rightarrow>
                Some (Exit 0, t' @ [glfwDestroyWindow w, glfwTerminate]))
       \<and> (\<forall>c i b t. \<not> glfwWindowShouldClose_result e i \<longrightarrow>
            frame_loop e w c i b t =
              frame_loop e w c (Suc i) (ClearImage c b)
                (t @ [glfwWindowShouldClose w,
                      glTexSubImage2D GL_TEXTURE_2D 0 0 0
                        (ucast (GetWidth b)) (ucast (GetHeight b))
                        GL_RGBA GL_UNSIGNED_INT_8_8_8_8 (GetImage (ClearImage c b)),
                      glDrawArrays GL_TRIANGLES 0 3,
                      glfwSwapBuffers w,
                      glfwPollEvents])
            \<and> GetImage (ClearImage c b) = replicate (length (GetImage b)) c)
       \<and> (\<forall>c i b t. glfwWindowShouldClose_result e i \<longrightarrow>
            frame_loop e w c i b t = Some (b, t @ [glfwWindowShouldClose w]))
       \<and> (\<forall>c i b t n.
            (\<forall>j<n. \<not> glfwWindowShouldClose_result e (i + j))
            \<and> glfwWindowShouldClose_result e (i + n) \<longrightarrow>
            frame_loop e w c i b t =
              Some ((ClearImage c ^^ n) b,
                    t @ concat (replicate n
                          [glfwWindowShouldClose w,
                           glTexSubImage2D GL_TEXTURE_2D 0 0 0
                             (ucast (GetWidth b)) (ucast (GetHeight b))
                             GL_RGBA GL_UNSIGNED_INT_8_8_8_8
                             (replicate (length (GetImage b)) c),
                           glDrawArrays GL_TRIANGLES 0 3,
                           glfwSwapBuffers w,
                           glfwPollEvents])
                      @ [glfwWindowShouldClose w]))
       \<and> (\<forall>n. (\<forall>j<n. \<not> glfwWindowShouldClose_result e j) \<and> glfwWindowShouldClose_result e n
            \<longrightarrow> main e = Some (Exit 0,
                   setup_calls e w
                   @ concat (replicate n
                       [glfwWindowShouldClose w,
                        glTexSubImage2D GL_TEXTURE_2D 0 0 0 224 256
                          GL_RGBA GL_UNSIGNED_INT_8_8_8_8
                          (replicate (224 * 256) (RGBToUint32 0 128 0)),
                        glDrawArrays GL_TRIANGLES 0 3,
                        glfwSwapBuffers w,
                        glfwPollEvents])
                   @ [glfwWindowShouldClose w, glfwDestroyWindow w, glfwTerminate]))
       \<and> ((\<forall>n. \<not> glfwWindowShouldClose_result e n) \<longrightarrow> main e = None)"
proof -
  have heap: "57344 \<le> heap_cells e"
    using assms(5) by simp
  note reach = assms(1-4) heap assms(6)
  have enters: "main e =
           (case frame_loop e w (RGBToUint32 0 128 0) 0
                   \<lparr>width_field = bufferWidth, height_field = bufferHeight,
                      image_field = replicate (224 * 256) 0\<rparr>
                   (setup_calls e w) of
              None \<Rightarrow> None
            | Some (buffer', t') \<Rightarrow>
                Some (Exit 0, t' @ [glfwDestroyWindow w, glfwTerminate]))"
    using main_frames [OF reach] by simp
  have pass: "frame_loop e w c i b t =
              frame_loop e w c (Suc i) (ClearImage c b)
                (t @ [glfwWindowShouldClose w,
                      glTexSubImage2D GL_TEXTURE_2D 0 0 0
                        (ucast (GetWidth b)) (ucast (GetHeight b))
                        GL_RGBA GL_UNSIGNED_INT_8_8_8_8 (GetImage (ClearImage c b)),
                      glDrawArrays GL_TRIANGLES 0 3,
                      glfwSwapBuffers w,
                      glfwPollEvents])"
    if "\<not> glfwWindowShouldClose_result e i" for c i b t
    using frame_loop_open [OF that, of w c b t]
    by (simp add: frame_calls_def GetWidth_ClearImage GetHeight_ClearImage)
  have leaves: "frame_loop e w c i b t = Some (b, t @ [glfwWindowShouldClose w])"
    if "glfwWindowShouldClose_result e i" for c i b t
    using that by (rule frame_loop_closed)
  have passes: "frame_loop e w c i b t =
              Some ((ClearImage c ^^ n) b,
                    t @ concat (replicate n
                          [glfwWindowShouldClose w,
                           glTexSubImage2D GL_TEXTURE_2D 0 0 0
                             (ucast (GetWidth b)) (ucast (GetHeight b))
                             GL_RGBA GL_UNSIGNED_INT_8_8_8_8
                             (replicate (length (GetImage b)) c),
                           glDrawArrays GL_TRIANGLES 0 3,
                           glfwSwapBuffers w,
                           glfwPollEvents])
                      @ [glfwWindowShouldClose w])"
    if "\<forall>j<n. \<not> glfwWindowShouldClose_result e (i + j)"
      and "glfwWindowShouldClose_result e (i + n)" for c i b t n
    unfolding frame_loop_closes [OF that] frames_constant
    by (simp add: frame_calls_def GetWidth_ClearImage GetHeight_ClearImage GetImage_ClearImage)
  have returns: "main e = Some (Exit 0,
                   setup_calls e w
                   @ concat (replicate n
                       [glfwWindowShouldClose w,
                        glTexSubImage2D GL_TEXTURE_2D 0 0 0 224 256
                          GL_RGBA GL_UNSIGNED_INT_8_8_8_8
                          (replicate (224 * 256) (RGBToUint32 0 128 0)),
                        glDrawArrays GL_TRIANGLES 0 3,
                        glfwSwapBuffers w,
                        glfwPollEvents])
                   @ [glfwWindowShouldClose w, glfwDestroyWindow w, glfwTerminate])"
    if "\<forall>j<n. \<not> glfwWindowShouldClose_result e j" and "glfwWindowShouldClose_result e n"
    for n
    using main_normal [OF reach that] by simp
  have stays: "main e = None" if "\<forall>n. \<not> glfwWindowShouldClose_result e n"
    using main_never [OF reach that] .
  show ?thesis
  proof (intro conjI allI impI, goal_cases)
    case 1
    show ?case by (rule enters)
  next
    case (2 c i b t)
    then show ?case by (rule pass)
  next
    case (3 c i b t)
    show ?case by (rule GetImage_ClearImage)
  next
    case (4 c i b t)
    then show ?case by (rule leaves)
  next
    case (5 c i b t n)
    then show ?case by (intro passes) simp_all
  next
    case (6 n)
    then show ?case by (intro returns) simp_all
  next
    case 7
    then show ?case by (rule stays)
  qed
qed

theorem frame_loop_steps_witness:
  "main example_env = Some (Exit 0,
     setup_calls example_env 1
     @ concat (replicate 2
         [glfwWindowShouldClose 1,
          glTexSubImage2D GL_TEXTURE_2D 0 0 0 224 256
            GL_RGBA GL_UNSIGNED_INT_8_8_8_8
            (replicate (224 * 256) (RGBToUint32 0 128 0)),
          glDrawArrays GL_TRIANGLES 0 3,
          glfwSwapBuffers 1,
          glfwPollEvents])
     @ [glfwWindowShouldClose 1, glfwDestroyWindow 1, glfwTerminate])
   \<and> frame_loop example_env 1 7 1
        \<lparr>width_field = 2, height_field = 1, image_field = [1, 2]\<rparr> []
       = Some (\<lparr>width_field = 2, height_field = 1, image_field = [7, 7]\<rparr>,
               [glfwWindowShouldClose 1,
                glTexSubImage2D GL_TEXTURE_2D 0 0 0 2 1 GL_RGBA GL_UNSIGNED_INT_8_8_8_8 [7, 7],
                glDrawArrays GL_TRIANGLES 0 3,
                glfwSwapBuffers 1,
                glfwPollEvents,
                glfwWindowShouldClose 1])"
proof -
  have heap: "224 * 256 \<le> heap_cells example_env"
    using example_env_fields(5) by simp
  note facts = frame_loop_steps [OF example_env_fields(1-4) heap example_env_fields(6)]
  have run: "main example_env = Some (Exit 0,
     setup_calls example_env 1
     @ concat (replicate 2
         [glfwWindowShouldClose 1,
          glTexSubImage2D GL_TEXTURE_2D 0 0 0 224 256
            GL_RGBA GL_UNSIGNED_INT_8_8_8_8
            (replicate (224 * 256) (RGBToUint32 0 128 0)),
          glDrawArrays GL_TRIANGLES 0 3,
          glfwSwapBuffers 1,
          glfwPollEvents])
     @ [glfwWindowShouldClose 1, glfwDestroyWindow 1, glfwTerminate])"
    using facts [THEN conjunct2, THEN conjunct2, THEN conjunct2, THEN conjunct2, THEN conjunct1,
        rule_format, of 2]
      example_env_fields(7,8)
    by simp
  have open1: "\<forall>j<1. \<not> glfwWindowShouldClose_result example_env (1 + j)"
    and closed2: "glfwWindowShouldClose_result example_env (1 + 1)"
    by (simp_all add: example_env_def)
  from facts [THEN conjunct2, THEN conjunct2, THEN conjunct2, THEN conjunct1,
        rule_format, of 1 1 7 "\<lparr>width_field = 2, height_field = 1, image_field = [1, 2]\<rparr>" "[]"]
    open1 closed2
  have "frame_loop example_env 1 7 1
          \<lparr>width_field = 2, height_field = 1, image_field = [1, 2]\<rparr> []
        = Some ((ClearImage 7 ^^ 1) \<lparr>width_field = 2, height_field = 1, image_field = [1, 2]\<rparr>,
                [] @ concat (replicate 1
                   [glfwWindowShouldClose 1,
                    glTexSubImage2D GL_TEXTURE_2D 0 0 0
                      (ucast (GetWidth \<lparr>width_field = 2, height_field = 1, image_field = [1, 2]\<rparr>))
                      (ucast (GetHeight \<lparr>width_field = 2, height_field = 1, image_field = [1, 2]\<rparr>))
                      GL_RGBA GL_UNSIGNED_INT_8_8_8_8
                      (replicate
                         (length (GetImage \<lparr>width_field = 2, height_field = 1,
                                             image_field = [1, 2]\<rparr>)) 7),
                    glDrawArrays GL_TRIANGLES 0 3,
                    glfwSwapBuffers 1,
                    glfwPollEvents])
                 @ [glfwWindowShouldClose 1])"
    by simp
  then have loop: "frame_loop example_env 1 7 1
        \<lparr>width_field = 2, height_field = 1, image_field = [1, 2]\<rparr> []
       = Some (\<lparr>width_field = 2, height_field = 1, image_field = [7, 7]\<rparr>,
               [glfwWindowShouldClose 1,
                glTexSubImage2D GL_TEXTURE_2D 0 0 0 2 1 GL_RGBA GL_UNSIGNED_INT_8_8_8_8 [7, 7],
                glDrawArrays GL_TRIANGLES 0 3,
                glfwSwapBuffers 1,
                glfwPollEvents,
                glfwWindowShouldClose 1])"
    by (simp add: GetWidth_def GetHeight_def GetImage_def ClearImage_eq)
  from run loop show ?thesis by blast
qed

subsection \<open>Teardown\<close>

lemma setup_calls_split:
  "setup_calls e w =
     [glfwSetErrorCallback,
      glfwInit,
      glfwWindowHint GLFW_OPENGL_PROFILE (Macro GLFW_OPENGL_CORE_PROFILE),
      glfwWindowHint GLFW_CONTEXT_VERSION_MAJOR (Literal 3),
      glfwWindowHint GLFW_CONTEXT_VERSION_MINOR (Literal 3),
      glfwWindowHint GLFW_OPENGL_FORWARD_COMPAT (Macro GL_TRUE),
      glfwCreateWindow 224 256 ''Space Invaders'']
     @ (context_calls w @ version_calls e @ program_calls e
        @ [glGetProgramInfoLog (glCreateProgram_result e) BUFFER_SIZE]
        @ texture_calls e \<lparr>width_field = bufferWidth, height_field = bufferHeight,
                            image_field = replicate (224 * 256) 0\<rparr>)"
  by (simp add: setup_calls_def init_calls_def window_calls_def bufferWidth_def bufferHeight_def)

lemma after_window_no_lifecycle:
  "\<not> list_ex is_lifecycle_call
       (context_calls w @ version_calls e @ program_calls e
        @ [glGetProgramInfoLog (glCreateProgram_result e) BUFFER_SIZE]
        @ texture_calls e b)"
  using version_calls_no_lifecycle [of e] program_calls_no_lifecycle [of e]
    texture_calls_no_lifecycle [of e b]
  by (simp add: context_calls_def)

text \<open>
  C9, as amended. When \<^verbatim>\<open>main\<close> returns 0, its calls are, in this order:
  \<^verbatim>\<open>glfwSetErrorCallback\<close>, \<^verbatim>\<open>glfwInit\<close>, the four window hints and
  \<^verbatim>\<open>glfwCreateWindow\<close>; then a sequence of calls that contains no \<^verbatim>\<open>glfwInit\<close>,
  \<^verbatim>\<open>glfwCreateWindow\<close>, \<^verbatim>\<open>glfwDestroyWindow\<close> or \<^verbatim>\<open>glfwTerminate\<close>; then
  \<^verbatim>\<open>glfwDestroyWindow\<close> on the window that was created, and last \<^verbatim>\<open>glfwTerminate\<close>.
  The library is initialised before the window is created, and the window (with its
  context) is destroyed before the library is terminated: the reverse order of their
  acquisition. The shader program and the texture created in between are not
  released by any call of the run.

  As stated (every graphics object created during setup is released, in reverse order
  of acquisition) the claim fails: the run \<open>example_env\<close> returns 0 and never deletes
  the program object it created.
\<close>
theorem teardown_on_normal_exit:
  assumes "main e = Some (Exit 0, tr)"
  shows "\<exists>w between.
           glfwCreateWindow_result e = Some w
           \<and> tr = [glfwSetErrorCallback,
                   glfwInit,
                   glfwWindowHint GLFW_OPENGL_PROFILE (Macro GLFW_OPENGL_CORE_PROFILE),
                   glfwWindowHint GLFW_CONTEXT_VERSION_MAJOR (Literal 3),
                   glfwWindowHint GLFW_CONTEXT_VERSION_MINOR (Literal 3),
                   glfwWindowHint GLFW_OPENGL_FORWARD_COMPAT (Macro GL_TRUE),
                   glfwCreateWindow 224 256 ''Space Invaders'']
                  @ between
                  @ [glfwDestroyWindow w, glfwTerminate]
           \<and> \<not> list_ex is_lifecycle_call between
           \<and> list_ex (\<lambda>c. c = glCreateProgram (glCreateProgram_result e)) between
           \<and> list_ex (\<lambda>c. c = glGenTextures 1 (glGenTextures_result e)) between
           \<and> \<not> list_ex is_program_or_texture_release tr"
proof -
  from assms obtain w n where ok: "glfwInit_result e" "glfwCreateWindow_result e = Some w"
      "glewInit_result e" "\<not> string_allocation_fails e" "57344 \<le> heap_cells e"
      "glGetProgramInfoLog_result e (glCreateProgram_result e) = []"
    and n: "\<forall>j<n. \<not> glfwWindowShouldClose_result e j" "glfwWindowShouldClose_result e n"
    by (rule main_Exit_0)
  define after_window where
    "after_window = context_calls w @ version_calls e @ program_calls e
        @ [glGetProgramInfoLog (glCreateProgram_result e) BUFFER_SIZE]
        @ texture_calls e \<lparr>width_field = bufferWidth, height_field = bufferHeight,
                            image_field = replicate (224 * 256) 0\<rparr>"
  define frames where
    "frames = concat (replicate n
           [glfwWindowShouldClose w,
            glTexSubImage2D GL_TEXTURE_2D 0 0 0 224 256 GL_RGBA GL_UNSIGNED_INT_8_8_8_8
              (replicate 57344 (RGBToUint32 0 128 0)),
            glDrawArrays GL_TRIANGLES 0 3,
            glfwSwapBuffers w,
            glfwPollEvents])"
  define between where "between = after_window @ frames @ [glfwWindowShouldClose w]"
  have tr: "tr = [glfwSetErrorCallback,
                   glfwInit,
                   glfwWindowHint GLFW_OPENGL_PROFILE (Macro GLFW_OPENGL_CORE_PROFILE),
                   glfwWindowHint GLFW_CONTEXT_VERSION_MAJOR (Literal 3),
                   glfwWindowHint GLFW_CONTEXT_VERSION_MINOR (Literal 3),
                   glfwWindowHint GLFW_OPENGL_FORWARD_COMPAT (Macro GL_TRUE),
                   glfwCreateWindow 224 256 ''Space Invaders'']
                  @ between
                  @ [glfwDestroyWindow w, glfwTerminate]"
    using assms unfolding main_normal [OF ok n] setup_calls_split
    by (simp add: between_def after_window_def frames_def)
  have whole: "tr = setup_calls e w @ frames @ [glfwWindowShouldClose w, glfwDestroyWindow w, glfwTerminate]"
    using assms unfolding main_normal [OF ok n] by (simp add: frames_def)
  have frames_quiet: "\<not> list_ex is_lifecycle_call frames"
    "\<not> list_ex is_program_or_texture_release frames"
    unfolding frames_def by (rule frames_no_lifecycle, rule frames_no_release)
  have quiet: "\<not> list_ex is_lifecycle_call between"
    using after_window_no_lifecycle [of w e] frames_quiet(1)
    by (simp add: between_def after_window_def)
  have prog: "list_ex (\<lambda>c. c = glCreateProgram (glCreateProgram_result e)) between"
    unfolding between_def after_window_def by (simp add: program_calls_def Let_def)
  have tex: "list_ex (\<lambda>c. c = glGenTextures 1 (glGenTextures_result e)) between"
    unfolding between_def after_window_def by (simp add: texture_calls_def Let_def)
  have none: "\<not> list_ex is_program_or_texture_release tr"
    using setup_calls_no_release [of e w] frames_quiet(2)
    by (simp add: whole)
  from ok(2) tr quiet prog tex none show ?thesis by blast
qed

lemma example_calls_no_release: "\<not> list_ex is_program_or_texture_release example_calls"
  using setup_calls_no_release [of example_env 1]
  by (simp add: example_calls_def list_ex_concat_replicate)

lemma example_calls_program:
  "list_ex (\<lambda>c. c = glCreateProgram (glCreateProgram_result example_env)) example_calls"
  using setup_calls_creates(1) [of example_env 1] by (simp add: example_calls_def)

lemma no_release_no_program_release:
  "\<not> list_ex is_program_or_texture_release tr \<Longrightarrow> \<not> list_ex (\<lambda>c. c = glDeleteProgram p) tr"
  by (induction tr) auto

lemma unreleased_program:
  assumes "list_ex (\<lambda>c. c = glCreateProgram p) tr"
    and "\<not> list_ex is_program_or_texture_release tr"
  shows "\<not> every_object_released tr"
  using assms
proof (induction tr)
  case Nil
  then show ?case by simp
next
  case (Cons c cs)
  show ?case
  proof (cases "c = glCreateProgram p")
    case True
    have "\<not> list_ex (\<lambda>c. c = glDeleteProgram p) cs"
      using Cons.prems(2) by (simp add: no_release_no_program_release)
    with True show ?thesis by simp
  next
    case False
    with Cons show ?thesis by simp
  qed
qed

theorem teardown_witness:
  "\<exists>between. main example_env
       = Some (Exit 0,
               [glfwSetErrorCallback,
                glfwInit,
                glfwWindowHint GLFW_OPENGL_PROFILE (Macro GLFW_OPENGL_CORE_PROFILE),
                glfwWindowHint GLFW_CONTEXT_VERSION_MAJOR (Literal 3),
                glfwWindowHint GLFW_CONTEXT_VERSION_MINOR (Literal 3),
                glfwWindowHint GLFW_OPENGL_FORWARD_COMPAT (Macro GL_TRUE),
                glfwCreateWindow 224 256 ''Space Invaders'']
               @ between
               @ [glfwDestroyWindow 1, glfwTerminate])
     \<and> \<not> list_ex is_lifecycle_call between
     \<and> list_ex (\<lambda>c. c = glCreateProgram 3) between
     \<and> list_ex (\<lambda>c. c = glGenTextures 1 1) between
     \<and> \<not> list_ex is_program_or_texture_release example_calls"
proof -
  from teardown_on_normal_exit [OF main_example_env] obtain w between
    where w: "glfwCreateWindow_result example_env = Some w"
      and tr: "example_calls = [glfwSetErrorCallback,
                   glfwInit,
                   glfwWindowHint GLFW_OPENGL_PROFILE (Macro GLFW_OPENGL_CORE_PROFILE),
                   glfwWindowHint GLFW_CONTEXT_VERSION_MAJOR (Literal 3),
                   glfwWindowHint GLFW_CONTEXT_VERSION_MINOR (Literal 3),
                   glfwWindowHint GLFW_OPENGL_FORWARD_COMPAT (Macro GL_TRUE),
                   glfwCreateWindow 224 256 ''Space Invaders'']
                  @ between
                  @ [glfwDestroyWindow w, glfwTerminate]"
      and quiet: "\<not> list_ex is_lifecycle_call between"
      and prog: "list_ex (\<lambda>c. c = glCreateProgram (glCreateProgram_result example_env)) between"
      and tex: "list_ex (\<lambda>c. c = glGenTextures 1 (glGenTextures_result example_env)) between"
      and none: "\<not> list_ex is_program_or_texture_release example_calls"
    by blast
  from w have w1: "w = 1" by (simp add: example_env_def)
  have ids: "glCreateProgram_result example_env = 3" "glGenTextures_result example_env = 1"
    by (simp_all add: example_env_def)
  from main_example_env tr w1
  have "main example_env
       = Some (Exit 0,
               [glfwSetErrorCallback,
                glfwInit,
                glfwWindowHint GLFW_OPENGL_PROFILE (Macro GLFW_OPENGL_CORE_PROFILE),
                glfwWindowHint GLFW_CONTEXT_VERSION_MAJOR (Literal 3),
                glfwWindowHint GLFW_CONTEXT_VERSION_MINOR (Literal 3),
                glfwWindowHint GLFW_OPENGL_FORWARD_COMPAT (Macro GL_TRUE),
                glfwCreateWindow 224 256 ''Space Invaders'']
               @ between
               @ [glfwDestroyWindow 1, glfwTerminate])"
    by simp
  with quiet prog tex none ids show ?thesis
    by auto
qed

theorem teardown_counterexample:
  "main example_env = Some (Exit 0, example_calls) \<and> \<not> every_object_released example_calls"
  using main_example_env unreleased_program [OF example_calls_program example_calls_no_release]
  by simp

subsection \<open>How main ends\<close>

lemma link_failure_env_fields:
  "glfwInit_result link_failure_env"
  "glfwCreateWindow_result link_failure_env = Some 1"
  "glewInit_result link_failure_env"
  "\<not> string_allocation_fails link_failure_env"
  "57344 \<le> heap_cells link_failure_env"
  "glGetProgramInfoLog_result link_failure_env (glCreateProgram_result link_failure_env) \<noteq> []"
  using example_env_fields(1-5)
  by (simp_all add: link_failure_env_def string_allocation_fails_def allocation_refused_def
      pending_errors_def)

lemma link_warning_env_fields:
  "glfwInit_result link_warning_env"
  "glfwCreateWindow_result link_warning_env = Some 1"
  "glewInit_result link_warning_env"
  "\<not> string_allocation_fails link_warning_env"
  "57344 \<le> heap_cells link_warning_env"
  "glGetProgramInfoLog_result link_warning_env (glCreateProgram_result link_warning_env) \<noteq> []"
  using example_env_fields(1-5)
  by (simp_all add: link_warning_env_def string_allocation_fails_def allocation_refused_def
      pending_errors_def)

lemma silent_link_failure_env_fields:
  "glfwInit_result silent_link_failure_env"
  "glfwCreateWindow_result silent_link_failure_env = Some 1"
  "glewInit_result silent_link_failure_env"
  "\<not> string_allocation_fails silent_link_failure_env"
  "57344 \<le> heap_cells silent_link_failure_env"
  "glGetProgramInfoLog_result silent_link_failure_env
     (glCreateProgram_result silent_link_failure_env) = []"
  "glfwWindowShouldClose_result silent_link_failure_env 2"
  using example_env_fields(1-6,8)
  by (simp_all add: silent_link_failure_env_def string_allocation_fails_def
      allocation_refused_def pending_errors_def)

lemma out_of_memory_env_fields:
  "glfwInit_result out_of_memory_env"
  "glfwCreateWindow_result out_of_memory_env = Some 1"
  "glewInit_result out_of_memory_env"
  "\<not> string_allocation_fails out_of_memory_env"
  "heap_cells out_of_memory_env < 57344"
  using example_env_fields(1-4)
  by (simp_all add: out_of_memory_env_def string_allocation_fails_def allocation_refused_def
      pending_errors_def)

lemma errorString_names:
  "errorString GL_INVALID_ENUM = ''GL_INVALID_ENUM''"
  "errorString GL_INVALID_VALUE = ''GL_INVALID_VALUE''"
  "errorString GL_INVALID_OPERATION = ''GL_INVALID_OPERATION''"
  "errorString GL_INVALID_FRAMEBUFFER_OPERATION = ''GL_INVALID_FRAMEBUFFER_OPERATION''"
  "errorString GL_OUT_OF_MEMORY = ''GL_OUT_OF_MEMORY''"
  by (simp_all add: errorString_def GL_INVALID_ENUM_def GL_INVALID_VALUE_def
      GL_INVALID_OPERATION_def GL_INVALID_FRAMEBUFFER_OPERATION_def GL_OUT_OF_MEMORY_def)

lemma errorString_unknown:
  assumes "errorNo \<notin> {GL_INVALID_ENUM, GL_INVALID_VALUE, GL_INVALID_OPERATION,
                       GL_INVALID_FRAMEBUFFER_OPERATION, GL_OUT_OF_MEMORY}"
  shows "errorString errorNo = ''UNKNOWN_ERROR''"
  using assms by (simp add: errorString_def)

lemma errorString_allocates:
  "string_local_capacity < length (errorString errorNo)
     \<longleftrightarrow> errorNo \<in> {GL_INVALID_VALUE, GL_INVALID_OPERATION,
                     GL_INVALID_FRAMEBUFFER_OPERATION, GL_OUT_OF_MEMORY}"
  by (simp add: errorString_def string_local_capacity_def GL_INVALID_ENUM_def
      GL_INVALID_VALUE_def GL_INVALID_OPERATION_def GL_INVALID_FRAMEBUFFER_OPERATION_def
      GL_OUT_OF_MEMORY_def)

lemma string_out_of_memory_env_fields:
  "glfwInit_result string_out_of_memory_env"
  "glfwCreateWindow_result string_out_of_memory_env = Some 1"
  "glewInit_result string_out_of_memory_env"
  "string_allocation_fails string_out_of_memory_env"
  using example_env_fields(1-3)
  by (simp_all add: string_out_of_memory_env_def string_allocation_fails_def
      allocation_refused_def pending_errors_def errorString_allocates)
     (simp add: GL_INVALID_VALUE_def GL_NO_ERROR_def)

lemma GLDebug_string_out_of_memory_env:
  "GLDebug_at_114 string_out_of_memory_env = ([glGetError GL_INVALID_VALUE], Some bad_alloc)"
  by (simp add: GLDebug_at_114_def string_out_of_memory_env_def errorString_allocates)
     (simp add: GL_INVALID_VALUE_def GL_NO_ERROR_def)

text \<open>
  C6, as amended. \<^verbatim>\<open>main\<close> returns \<open>-1\<close> when \<^verbatim>\<open>glfwInit\<close> fails, when no window is
  created, when \<^verbatim>\<open>glewInit\<close> fails, and when the program's info log, read after
  \<^verbatim>\<open>glLinkProgram\<close>, is not empty; it returns 0 when all steps of setup succeed,
  that log is empty and the window is eventually closed, and then only. The link
  status is never read: the value \<^verbatim>\<open>main\<close> returns does not depend on it. Three more
  things can happen. When the allocator refuses the storage of an error name in
  \<^verbatim>\<open>GLDebug\<close>, and when it refuses the \<open>224 * 256\<close> cells of the pixel buffer,
  \<^verbatim>\<open>std::bad_alloc\<close> leaves \<^verbatim>\<open>main\<close> uncaught, so the process ends without a return
  value of \<^verbatim>\<open>main\<close>; and while the window is never closed, \<^verbatim>\<open>main\<close> does not return.
  The eight cases cover every run.

  As stated (\<open>-1\<close> on link failure, 0 on the normal path, no other way out) the
  claim fails: the runs \<open>out_of_memory_env\<close> and \<open>string_out_of_memory_env\<close> end in
  the uncaught exception; in the run \<open>link_warning_env\<close> the link succeeds, with a
  warning in the log, and \<^verbatim>\<open>main\<close> returns \<open>-1\<close>; in the run
  \<open>silent_link_failure_env\<close> the link fails, with an empty log, and \<^verbatim>\<open>main\<close> returns 0.
\<close>
theorem main_exit_code:
  "(\<not> glfwInit_result e \<longrightarrow> map_option fst (main e) = Some (Exit (- 1)))
   \<and> (glfwInit_result e \<and> glfwCreateWindow_result e = None
        \<longrightarrow> map_option fst (main e) = Some (Exit (- 1)))
   \<and> (glfwInit_result e \<and> glfwCreateWindow_result e \<noteq> None \<and> \<not> glewInit_result e
        \<longrightarrow> map_option fst (main e) = Some (Exit (- 1)))
   \<and> (glfwInit_result e \<and> glfwCreateWindow_result e \<noteq> None \<and> glewInit_result e
        \<and> string_allocation_fails e
        \<longrightarrow> map_option fst (main e) = Some (Uncaught bad_alloc))
   \<and> (glfwInit_result e \<and> glfwCreateWindow_result e \<noteq> None \<and> glewInit_result e
        \<and> \<not> string_allocation_fails e
        \<and> heap_cells e < 224 * 256
        \<longrightarrow> map_option fst (main e) = Some (Uncaught bad_alloc))
   \<and> (glfwInit_result e \<and> glfwCreateWindow_result e \<noteq> None \<and> glewInit_result e
        \<and> \<not> string_allocation_fails e
        \<and> 224 * 256 \<le> heap_cells e
        \<and> glGetProgramInfoLog_result e (glCreateProgram_result e) \<noteq> []
        \<longrightarrow> map_option fst (main e) = Some (Exit (- 1)))
   \<and> (glfwInit_result e \<and> glfwCreateWindow_result e \<noteq> None \<and> glewInit_result e
        \<and> \<not> string_allocation_fails e
        \<and> 224 * 256 \<le> heap_cells e
        \<and> glGetProgramInfoLog_result e (glCreateProgram_result e) = []
        \<and> (\<exists>n. glfwWindowShouldClose_result e n)
        \<longrightarrow> map_option fst (main e) = Some (Exit 0))
   \<and> (glfwInit_result e \<and> glfwCreateWindow_result e \<noteq> None \<and> glewInit_result e
        \<and> \<not> string_allocation_fails e
        \<and> 224 * 256 \<le> heap_cells e
        \<and> glGetProgramInfoLog_result e (glCreateProgram_result e) = []
        \<and> (\<forall>n. \<not> glfwWindowShouldClose_result e n)
        \<longrightarrow> main e = None)
   \<and> (\<forall>s. main (e\<lparr>GL_LINK_STATUS_value := s\<rparr>) = main e)
   \<and> snd (GLDebug_at_114 e) = (if string_allocation_fails e then Some bad_alloc else None)"
proof -
  have paths:
    "(\<not> glfwInit_result e \<longrightarrow> map_option fst (main e) = Some (Exit (- 1)))
   \<and> (glfwInit_result e \<and> glfwCreateWindow_result e = None
        \<longrightarrow> map_option fst (main e) = Some (Exit (- 1)))
   \<and> (glfwInit_result e \<and> glfwCreateWindow_result e \<noteq> None \<and> \<not> glewInit_result e
        \<longrightarrow> map_option fst (main e) = Some (Exit (- 1)))
   \<and> (glfwInit_result e \<and> glfwCreateWindow_result e \<noteq> None \<and> glewInit_result e
        \<and> string_allocation_fails e
        \<longrightarrow> map_option fst (main e) = Some (Uncaught bad_alloc))
   \<and> (glfwInit_result e \<and> glfwCreateWindow_result e \<noteq> None \<and> glewInit_result e
        \<and> \<not> string_allocation_fails e
        \<and> heap_cells e < 224 * 256
        \<longrightarrow> map_option fst (main e) = Some (Uncaught bad_alloc))
   \<and> (glfwInit_result e \<and> glfwCreateWindow_result e \<noteq> None \<and> glewInit_result e
        \<and> \<not> string_allocation_fails e
        \<and> 224 * 256 \<le> heap_cells e
        \<and> glGetProgramInfoLog_result e (glCreateProgram_result e) \<noteq> []
        \<longrightarrow> map_option fst (main e) = Some (Exit (- 1)))
   \<and> (glfwInit_result e \<and> glfwCreateWindow_result e \<noteq> None \<and> glewInit_result e
        \<and> \<not> string_allocation_fails e
        \<and> 224 * 256 \<le> heap_cells e
        \<and> glGetProgramInfoLog_result e (glCreateProgram_result e) = []
        \<and> (\<exists>n. glfwWindowShouldClose_result e n)
        \<longrightarrow> map_option fst (main e) = Some (Exit 0))
   \<and> (glfwInit_result e \<and> glfwCreateWindow_result e \<noteq> None \<and> glewInit_result e
        \<and> \<not> string_allocation_fails e
        \<and> 224 * 256 \<le> heap_cells e
        \<and> glGetProgramInfoLog_result e (glCreateProgram_result e) = []
        \<and> (\<forall>n. \<not> glfwWindowShouldClose_result e n)
        \<longrightarrow> main e = None)"
  proof (cases e rule: main_cases)
    case no_glfw
    then show ?thesis by (simp add: main_no_glfw)
  next
    case no_window
    then show ?thesis by (simp add: main_no_window)
  next
    case (no_glew w)
    then show ?thesis by (simp add: main_no_glew)
  next
    case (no_string w)
    then show ?thesis by (simp add: main_no_string)
  next
    case (no_memory w)
    then show ?thesis by (simp add: main_no_memory)
  next
    case (link_failure w)
    then show ?thesis by (simp add: main_link_failure)
  next
    case (frames w)
    have "map_option fst (main e) = Some (Exit 0)" if "glfwWindowShouldClose_result e n" for n
      using main_closes [OF frames that] .
    moreover have "main e = None" if "\<forall>n. \<not> glfwWindowShouldClose_result e n"
      using main_never [OF frames that] .
    ultimately show ?thesis
      using frames by auto
  qed
  have status: "\<forall>s. main (e\<lparr>GL_LINK_STATUS_value := s\<rparr>) = main e"
    by (simp add: main_link_status)
  from paths status GLDebug_at_114_snd [of e] show ?thesis
    by (simp only: simp_thms conj_assoc)
qed

theorem main_exit_code_counterexample:
  "main out_of_memory_env
     = Some (Uncaught bad_alloc,
             init_calls @ window_calls @ context_calls 1 @ version_calls out_of_memory_env)
   \<and> main string_out_of_memory_env
     = Some (Uncaught bad_alloc,
             init_calls @ window_calls @ context_calls 1 @ version_queries
             @ [glGetError GL_INVALID_VALUE])
   \<and> GL_LINK_STATUS_value link_warning_env
   \<and> map_option fst (main link_warning_env) = Some (Exit (- 1))
   \<and> \<not> GL_LINK_STATUS_value silent_link_failure_env
   \<and> map_option fst (main silent_link_failure_env) = Some (Exit 0)"
proof -
  have "main out_of_memory_env
     = Some (Uncaught bad_alloc,
             init_calls @ window_calls @ context_calls 1 @ version_calls out_of_memory_env)"
    by (rule main_no_memory [OF out_of_memory_env_fields])
  moreover have "main string_out_of_memory_env
     = Some (Uncaught bad_alloc,
             init_calls @ window_calls @ context_calls 1 @ version_queries
             @ [glGetError GL_INVALID_VALUE])"
    using main_no_string [OF string_out_of_memory_env_fields]
    by (simp add: GLDebug_string_out_of_memory_env)
  moreover have "GL_LINK_STATUS_value link_warning_env"
    by (simp add: link_warning_env_def example_env_def)
  moreover have "map_option fst (main link_warning_env) = Some (Exit (- 1))"
    by (simp add: main_link_failure [OF link_warning_env_fields])
  moreover have "\<not> GL_LINK_STATUS_value silent_link_failure_env"
    by (simp add: silent_link_failure_env_def)
  moreover have "map_option fst (main silent_link_failure_env) = Some (Exit 0)"
    by (rule main_closes [OF silent_link_failure_env_fields])
  ultimately show ?thesis by blast
qed

theorem main_exit_code_witness:
  "map_option fst (main example_env) = Some (Exit 0)
   \<and> map_option fst (main link_failure_env) = Some (Exit (- 1))
   \<and> map_option fst (main out_of_memory_env) = Some (Uncaught bad_alloc)
   \<and> map_option fst (main string_out_of_memory_env) = Some (Uncaught bad_alloc)
   \<and> map_option fst (main (example_env\<lparr>glfwInit_result := False\<rparr>)) = Some (Exit (- 1))
   \<and> map_option fst (main (example_env\<lparr>glfwCreateWindow_result := None\<rparr>)) = Some (Exit (- 1))
   \<and> map_option fst (main (example_env\<lparr>glewInit_result := False\<rparr>)) = Some (Exit (- 1))"
proof -
  have "map_option fst (main example_env) = Some (Exit 0)"
    using main_exit_code [of example_env] example_env_fields
    by simp blast
  moreover have "map_option fst (main link_failure_env) = Some (Exit (- 1))"
    using main_exit_code [of link_failure_env] link_failure_env_fields
    by simp
  moreover have "map_option fst (main out_of_memory_env) = Some (Uncaught bad_alloc)"
    using main_exit_code [of out_of_memory_env] out_of_memory_env_fields
    by simp
  moreover have "map_option fst (main string_out_of_memory_env) = Some (Uncaught bad_alloc)"
    using main_exit_code [of string_out_of_memory_env] string_out_of_memory_env_fields
    by simp
  moreover have "map_option fst (main (example_env\<lparr>glfwInit_result := False\<rparr>)) = Some (Exit (- 1))"
    using main_exit_code [of "example_env\<lparr>glfwInit_result := False\<rparr>"]
    by simp
  moreover have "map_option fst (main (example_env\<lparr>glfwCreateWindow_result := None\<rparr>))
                   = Some (Exit (- 1))"
    using main_exit_code [of "example_env\<lparr>glfwCreateWindow_result := None\<rparr>"]
      example_env_fields(1)
    by simp
  moreover have "map_option fst (main (example_env\<lparr>glewInit_result := False\<rparr>))
                   = Some (Exit (- 1))"
    using main_exit_code [of "example_env\<lparr>glewInit_result := False\<rparr>"]
      example_env_fields(1,2)
    by simp
  ultimately show ?thesis by blast
qed

subsection \<open>Queries of the error state\<close>

lemma unchecked_here:
  assumes "list_ex is_gl_call ys" and "\<not> list_ex is_error_query ys"
  shows "\<not> every_gl_call_checked ys"
  using assms by (induction ys) auto

lemma unchecked_suffix:
  assumes "list_ex is_gl_call ys" and "\<not> list_ex is_error_query ys"
  shows "\<not> every_gl_call_checked (xs @ ys)"
  using unchecked_here [OF assms] by (induction xs) auto

lemma example_calls_unchecked: "\<not> every_gl_call_checked example_calls"
proof -
  define xs where "xs = init_calls @ window_calls @ context_calls 1 @ version_calls example_env
      @ program_calls example_env @ [glGetProgramInfoLog (glCreateProgram_result example_env) BUFFER_SIZE]"
  define ys where "ys = texture_calls example_env
        \<lparr>width_field = bufferWidth, height_field = bufferHeight, image_field = replicate 57344 0\<rparr>
      @ concat (replicate 2
         [glfwWindowShouldClose 1,
          glTexSubImage2D GL_TEXTURE_2D 0 0 0 224 256 GL_RGBA GL_UNSIGNED_INT_8_8_8_8
            (replicate 57344 (RGBToUint32 0 128 0)),
          glDrawArrays GL_TRIANGLES 0 3,
          glfwSwapBuffers 1,
          glfwPollEvents])
      @ [glfwWindowShouldClose 1, glfwDestroyWindow 1, glfwTerminate]"
  have split: "example_calls = xs @ ys"
    by (simp add: example_calls_def setup_calls_def xs_def ys_def)
  have calls: "list_ex is_gl_call ys"
    by (simp add: ys_def texture_calls_def Let_def)
  have none: "\<not> list_ex is_error_query ys"
    using texture_calls_no_query frames_no_query [of 2 1 "RGBToUint32 0 128 0"]
    by (simp add: ys_def)
  show ?thesis
    unfolding split using calls none by (rule unchecked_suffix)
qed

theorem error_query_counterexample:
  "main example_env = Some (Exit 0, example_calls) \<and> \<not> every_gl_call_checked example_calls
   \<and> GLDebug_at_114 (example_env\<lparr>glGetError_pending := [GL_STACK_OVERFLOW]\<rparr>)
       = ([glGetError GL_STACK_OVERFLOW,
           cerr [Str ''UNKNOWN_ERROR'', Str '' - '', Str ''main.cpp'', Str '' : '', Num 114],
           glGetError GL_NO_ERROR],
          None)
   \<and> main string_out_of_memory_env
       = Some (Uncaught bad_alloc,
               init_calls @ window_calls @ context_calls 1 @ version_queries
               @ [glGetError GL_INVALID_VALUE])"
proof -
  have unknown: "errorString GL_STACK_OVERFLOW = ''UNKNOWN_ERROR''"
    by (simp add: errorString_def GL_STACK_OVERFLOW_def GL_INVALID_ENUM_def
        GL_INVALID_VALUE_def GL_INVALID_OPERATION_def GL_INVALID_FRAMEBUFFER_OPERATION_def
        GL_OUT_OF_MEMORY_def)
  have flag: "GL_NO_ERROR \<noteq> GL_STACK_OVERFLOW"
    by (simp add: GL_STACK_OVERFLOW_def GL_NO_ERROR_def)
  have debug: "GLDebug_at_114 (example_env\<lparr>glGetError_pending := [GL_STACK_OVERFLOW]\<rparr>)
       = ([glGetError GL_STACK_OVERFLOW,
           cerr [Str ''UNKNOWN_ERROR'', Str '' - '', Str ''main.cpp'', Str '' : '', Num 114],
           glGetError GL_NO_ERROR],
          None)"
    using flag by (simp add: GLDebug_at_114_def example_env_def unknown string_local_capacity_def)
  have halts: "main string_out_of_memory_env
       = Some (Uncaught bad_alloc,
               init_calls @ window_calls @ context_calls 1 @ version_queries
               @ [glGetError GL_INVALID_VALUE])"
    using main_no_string [OF string_out_of_memory_env_fields]
    by (simp add: GLDebug_string_out_of_memory_env)
  from main_example_env example_calls_unchecked debug halts show ?thesis
    by (intro conjI)
qed

text \<open>
  C8, as amended. The error state is queried at one place only: \<^verbatim>\<open>GLDebug\<close>, called
  once, right after the two \<^verbatim>\<open>glGetIntegerv\<close> version queries (line 114), in every
  run in which \<^verbatim>\<open>glfwInit\<close>, the window creation and \<^verbatim>\<open>glewInit\<close> succeed. There
  \<^verbatim>\<open>glGetError\<close> is called until it answers \<^verbatim>\<open>GL_NO_ERROR\<close>, and for every error
  returned before that one line is written with the error's name, the file and the
  line 114. The name is that of the code for the five codes the switch lists and
  \<^verbatim>\<open>UNKNOWN_ERROR\<close> for every other code. The run then goes on with the version
  banner, unless the allocator refuses the storage one of the four names longer than
  15 characters needs: then \<^verbatim>\<open>std::bad_alloc\<close> leaves \<^verbatim>\<open>main\<close> right after the query
  that returned that error. No call after \<^verbatim>\<open>GLDebug\<close>, in the rest of setup or in the
  frame loop, queries the error state, although calls into OpenGL follow; and a run
  that fails before line 114 never queries it. Every case is a run that ends as
  said: \<^verbatim>\<open>main\<close> fails to return only while the window is never closed.

  As stated (a query after any graphics call, in setup and in the frame loop, every
  error logged under its name, no halt) the claim fails: in the run \<open>example_env\<close>
  the calls that create the texture and all calls of the frame loop are followed by
  no query; the pending error \<^verbatim>\<open>GL_STACK_OVERFLOW\<close> is logged as \<^verbatim>\<open>UNKNOWN_ERROR\<close>; and
  the run \<open>string_out_of_memory_env\<close> halts inside \<^verbatim>\<open>GLDebug\<close>.
\<close>
theorem error_query_once:
  "(\<not> glfwInit_result e \<longrightarrow>
      main e = Some (Exit (- 1), init_calls) \<and> \<not> list_ex is_error_query init_calls)
   \<and> (glfwInit_result e \<and> glfwCreateWindow_result e = None \<longrightarrow>
        main e = Some (Exit (- 1), init_calls @ window_calls @ [glfwTerminate])
        \<and> \<not> list_ex is_error_query (init_calls @ window_calls @ [glfwTerminate]))
   \<and> (\<forall>w. glfwInit_result e \<and> glfwCreateWindow_result e = Some w \<and> \<not> glewInit_result e \<longrightarrow>
        main e = Some (Exit (- 1),
                   init_calls @ window_calls @ context_calls w
                   @ [cerr [Str ''Error initializing GLEW''], glfwTerminate])
        \<and> \<not> list_ex is_error_query
               (init_calls @ window_calls @ context_calls w
                @ [cerr [Str ''Error initializing GLEW''], glfwTerminate]))
   \<and> (\<not> string_allocation_fails e \<longrightarrow>
        GLDebug_at_114 e =
          (concat (map (\<lambda>errorNo. [glGetError errorNo,
                                    cerr [Str (errorString errorNo), Str '' - '',
                                          Str (FILE_macro e), Str '' : '', Num 114]])
                       (pending_errors e))
           @ [glGetError GL_NO_ERROR],
           None))
   \<and> (string_allocation_fails e \<longrightarrow>
        (\<exists>logged errorNo later.
           pending_errors e = logged @ errorNo # later
           \<and> string_local_capacity < length (errorString errorNo)
           \<and> \<not> string_alloc_result e (length logged)
           \<and> GLDebug_at_114 e =
               (concat (map (\<lambda>errorNo. [glGetError errorNo,
                                         cerr [Str (errorString errorNo), Str '' - '',
                                               Str (FILE_macro e), Str '' : '', Num 114]])
                            logged)
                @ [glGetError errorNo],
                Some bad_alloc)))
   \<and> (\<forall>w. glfwInit_result e \<and> glfwCreateWindow_result e = Some w \<and> glewInit_result e
          \<and> string_allocation_fails e \<longrightarrow>
        main e = Some (Uncaught bad_alloc,
                   init_calls @ window_calls @ context_calls w @ version_queries
                   @ fst (GLDebug_at_114 e)))
   \<and> (\<forall>w. glfwInit_result e \<and> glfwCreateWindow_result e = Some w \<and> glewInit_result e
          \<and> \<not> string_allocation_fails e \<and> heap_cells e < 224 * 256 \<longrightarrow>
        main e = Some (Uncaught bad_alloc,
                   init_calls @ window_calls @ context_calls w @ version_queries
                   @ fst (GLDebug_at_114 e) @ banner_calls e))
   \<and> (\<forall>w. glfwInit_result e \<and> glfwCreateWindow_result e = Some w \<and> glewInit_result e
          \<and> \<not> string_allocation_fails e \<and> 224 * 256 \<le> heap_cells e
          \<and> glGetProgramInfoLog_result e (glCreateProgram_result e) \<noteq> [] \<longrightarrow>
        (\<exists>rest. main e = Some (Exit (- 1),
                           init_calls @ window_calls @ context_calls w @ version_queries
                           @ fst (GLDebug_at_114 e) @ banner_calls e @ rest)
               \<and> list_ex is_gl_call rest
               \<and> \<not> list_ex is_error_query rest))
   \<and> (\<forall>w n. glfwInit_result e \<and> glfwCreateWindow_result e = Some w \<and> glewInit_result e
          \<and> \<not> string_allocation_fails e \<and> 224 * 256 \<le> heap_cells e
          \<and> glGetProgramInfoLog_result e (glCreateProgram_result e) = []
          \<and> (\<forall>j<n. \<not> glfwWindowShouldClose_result e j)
          \<and> glfwWindowShouldClose_result e n \<longrightarrow>
        (\<exists>rest. main e = Some (Exit 0,
                           init_calls @ window_calls @ context_calls w @ version_queries
                           @ fst (GLDebug_at_114 e) @ banner_calls e @ rest)
               \<and> list_ex is_gl_call rest
               \<and> \<not> list_ex is_error_query rest))
   \<and> (\<forall>w. glfwInit_result e \<and> glfwCreateWindow_result e = Some w \<and> glewInit_result e
          \<and> \<not> string_allocation_fails e \<and> 224 * 256 \<le> heap_cells e
          \<and> glGetProgramInfoLog_result e (glCreateProgram_result e) = []
          \<and> (\<forall>n. \<not> glfwWindowShouldClose_result e n) \<longrightarrow>
        main e = None)
   \<and> (\<forall>w. \<not> list_ex is_error_query
                (init_calls @ window_calls @ context_calls w @ version_queries))
   \<and> \<not> list_ex is_error_query (banner_calls e)
   \<and> errorString GL_INVALID_ENUM = ''GL_INVALID_ENUM''
   \<and> errorString GL_INVALID_VALUE = ''GL_INVALID_VALUE''
   \<and> errorString GL_INVALID_OPERATION = ''GL_INVALID_OPERATION''
   \<and> errorString GL_INVALID_FRAMEBUFFER_OPERATION = ''GL_INVALID_FRAMEBUFFER_OPERATION''
   \<and> errorString GL_OUT_OF_MEMORY = ''GL_OUT_OF_MEMORY''
   \<and> (\<forall>errorNo. errorNo \<notin> {GL_INVALID_ENUM, GL_INVALID_VALUE, GL_INVALID_OPERATION,
                              GL_INVALID_FRAMEBUFFER_OPERATION, GL_OUT_OF_MEMORY} \<longrightarrow>
        errorString errorNo = ''UNKNOWN_ERROR'')
   \<and> (\<forall>errorNo. string_local_capacity < length (errorString errorNo) \<longleftrightarrow>
        errorNo \<in> {GL_INVALID_VALUE, GL_INVALID_OPERATION,
                    GL_INVALID_FRAMEBUFFER_OPERATION, GL_OUT_OF_MEMORY})"
proof -
  have c1: "\<not> glfwInit_result e \<longrightarrow>
      main e = Some (Exit (- 1), init_calls) \<and> \<not> list_ex is_error_query init_calls"
    using start_no_query(1) by (simp add: main_no_glfw)
  have c2: "glfwInit_result e \<and> glfwCreateWindow_result e = None \<longrightarrow>
        main e = Some (Exit (- 1), init_calls @ window_calls @ [glfwTerminate])
        \<and> \<not> list_ex is_error_query (init_calls @ window_calls @ [glfwTerminate])"
    using start_no_query(2) by (simp add: main_no_window)
  have c3: "\<forall>w. glfwInit_result e \<and> glfwCreateWindow_result e = Some w \<and> \<not> glewInit_result e \<longrightarrow>
        main e = Some (Exit (- 1),
                   init_calls @ window_calls @ context_calls w
                   @ [cerr [Str ''Error initializing GLEW''], glfwTerminate])
        \<and> \<not> list_ex is_error_query
               (init_calls @ window_calls @ context_calls w
                @ [cerr [Str ''Error initializing GLEW''], glfwTerminate])"
    using start_no_query(3) by (simp add: main_no_glew)
  have c4: "\<not> string_allocation_fails e \<longrightarrow>
        GLDebug_at_114 e =
          (concat (map (\<lambda>errorNo. [glGetError errorNo,
                                    cerr [Str (errorString errorNo), Str '' - '',
                                          Str (FILE_macro e), Str '' : '', Num 114]])
                       (pending_errors e))
           @ [glGetError GL_NO_ERROR],
           None)"
    using GLDebug_at_114_returns [of e] by (rule impI)
  have c5: "string_allocation_fails e \<longrightarrow>
        (\<exists>logged errorNo later.
           pending_errors e = logged @ errorNo # later
           \<and> string_local_capacity < length (errorString errorNo)
           \<and> \<not> string_alloc_result e (length logged)
           \<and> GLDebug_at_114 e =
               (concat (map (\<lambda>errorNo. [glGetError errorNo,
                                         cerr [Str (errorString errorNo), Str '' - '',
                                               Str (FILE_macro e), Str '' : '', Num 114]])
                            logged)
                @ [glGetError errorNo],
                Some bad_alloc))"
    using GLDebug_at_114_throws [of e] by (rule impI)
  have c6: "\<forall>w. glfwInit_result e \<and> glfwCreateWindow_result e = Some w \<and> glewInit_result e
          \<and> string_allocation_fails e \<longrightarrow>
        main e = Some (Uncaught bad_alloc,
                   init_calls @ window_calls @ context_calls w @ version_queries
                   @ fst (GLDebug_at_114 e))"
    by (simp add: main_no_string)
  have c7: "\<forall>w. glfwInit_result e \<and> glfwCreateWindow_result e = Some w \<and> glewInit_result e
          \<and> \<not> string_allocation_fails e \<and> heap_cells e < 224 * 256 \<longrightarrow>
        main e = Some (Uncaught bad_alloc,
                   init_calls @ window_calls @ context_calls w @ version_queries
                   @ fst (GLDebug_at_114 e) @ banner_calls e)"
    by (simp add: main_no_memory version_calls_def)
  have c8: "\<forall>w. glfwInit_result e \<and> glfwCreateWindow_result e = Some w \<and> glewInit_result e
          \<and> \<not> string_allocation_fails e \<and> 224 * 256 \<le> heap_cells e
          \<and> glGetProgramInfoLog_result e (glCreateProgram_result e) \<noteq> [] \<longrightarrow>
        (\<exists>rest. main e = Some (Exit (- 1),
                           init_calls @ window_calls @ context_calls w @ version_queries
                           @ fst (GLDebug_at_114 e) @ banner_calls e @ rest)
               \<and> list_ex is_gl_call rest
               \<and> \<not> list_ex is_error_query rest)"
  proof (intro allI impI)
    fix w
    assume a: "glfwInit_result e \<and> glfwCreateWindow_result e = Some w \<and> glewInit_result e
          \<and> \<not> string_allocation_fails e \<and> 224 * 256 \<le> heap_cells e
          \<and> glGetProgramInfoLog_result e (glCreateProgram_result e) \<noteq> []"
    then have reach: "glfwInit_result e" "glfwCreateWindow_result e = Some w"
        "glewInit_result e" "\<not> string_allocation_fails e" "57344 \<le> heap_cells e"
        "glGetProgramInfoLog_result e (glCreateProgram_result e) \<noteq> []"
      by simp_all
    define rest where
      "rest = program_calls e
         @ [glGetProgramInfoLog (glCreateProgram_result e) BUFFER_SIZE,
            cerr [Str ''Program '', Unsigned (unat (glCreateProgram_result e)),
                  Str '' link error: '',
                  Str (info_log_copy BUFFER_SIZE
                         (glGetProgramInfoLog_result e (glCreateProgram_result e)))],
            cerr [Str ''Error while validating program''],
            glfwTerminate,
            glDeleteVertexArrays 1 (glGenVertexArrays_result e)]"
    have "main e = Some (Exit (- 1),
                           init_calls @ window_calls @ context_calls w @ version_queries
                           @ fst (GLDebug_at_114 e) @ banner_calls e @ rest)"
      unfolding main_link_failure [OF reach] by (simp add: rest_def version_calls_def)
    moreover have "list_ex is_gl_call rest"
      by (simp add: rest_def)
    moreover have "\<not> list_ex is_error_query rest"
      using program_calls_no_query [of e] by (simp add: rest_def)
    ultimately show "\<exists>rest. main e = Some (Exit (- 1),
                           init_calls @ window_calls @ context_calls w @ version_queries
                           @ fst (GLDebug_at_114 e) @ banner_calls e @ rest)
               \<and> list_ex is_gl_call rest
               \<and> \<not> list_ex is_error_query rest"
      by blast
  qed
  have c9: "\<forall>w n. glfwInit_result e \<and> glfwCreateWindow_result e = Some w \<and> glewInit_result e
          \<and> \<not> string_allocation_fails e \<and> 224 * 256 \<le> heap_cells e
          \<and> glGetProgramInfoLog_result e (glCreateProgram_result e) = []
          \<and> (\<forall>j<n. \<not> glfwWindowShouldClose_result e j)
          \<and> glfwWindowShouldClose_result e n \<longrightarrow>
        (\<exists>rest. main e = Some (Exit 0,
                           init_calls @ window_calls @ context_calls w @ version_queries
                           @ fst (GLDebug_at_114 e) @ banner_calls e @ rest)
               \<and> list_ex is_gl_call rest
               \<and> \<not> list_ex is_error_query rest)"
  proof (intro allI impI)
    fix w n
    assume a: "glfwInit_result e \<and> glfwCreateWindow_result e = Some w \<and> glewInit_result e
          \<and> \<not> string_allocation_fails e \<and> 224 * 256 \<le> heap_cells e
          \<and> glGetProgramInfoLog_result e (glCreateProgram_result e) = []
          \<and> (\<forall>j<n. \<not> glfwWindowShouldClose_result e j)
          \<and> glfwWindowShouldClose_result e n"
    then have reach: "glfwInit_result e" "glfwCreateWindow_result e = Some w"
        "glewInit_result e" "\<not> string_allocation_fails e" "57344 \<le> heap_cells e"
        "glGetProgramInfoLog_result e (glCreateProgram_result e) = []"
        "\<forall>j<n. \<not> glfwWindowShouldClose_result e j" "glfwWindowShouldClose_result e n"
      by simp_all
    define rest where
      "rest = program_calls e
         @ [glGetProgramInfoLog (glCreateProgram_result e) BUFFER_SIZE]
         @ texture_calls e \<lparr>width_field = bufferWidth, height_field = bufferHeight,
                             image_field = replicate 57344 0\<rparr>
         @ concat (replicate n
             [glfwWindowShouldClose w,
              glTexSubImage2D GL_TEXTURE_2D 0 0 0 224 256 GL_RGBA GL_UNSIGNED_INT_8_8_8_8
                (replicate 57344 (RGBToUint32 0 128 0)),
              glDrawArrays GL_TRIANGLES 0 3,
              glfwSwapBuffers w,
              glfwPollEvents])
         @ [glfwWindowShouldClose w, glfwDestroyWindow w, glfwTerminate]"
    have "main e = Some (Exit 0,
                           init_calls @ window_calls @ context_calls w @ version_queries
                           @ fst (GLDebug_at_114 e) @ banner_calls e @ rest)"
      unfolding main_normal [OF reach]
      by (simp add: rest_def setup_calls_def version_calls_def)
    moreover have "list_ex is_gl_call rest"
      by (simp add: rest_def texture_calls_def Let_def)
    moreover have "\<not> list_ex is_error_query rest"
      using program_calls_no_query [of e] texture_calls_no_query [of e]
        frames_no_query [of n w "RGBToUint32 0 128 0"]
      by (simp add: rest_def)
    ultimately show "\<exists>rest. main e = Some (Exit 0,
                           init_calls @ window_calls @ context_calls w @ version_queries
                           @ fst (GLDebug_at_114 e) @ banner_calls e @ rest)
               \<and> list_ex is_gl_call rest
               \<and> \<not> list_ex is_error_query rest"
      by blast
  qed
  have c10: "\<forall>w. glfwInit_result e \<and> glfwCreateWindow_result e = Some w \<and> glewInit_result e
          \<and> \<not> string_allocation_fails e \<and> 224 * 256 \<le> heap_cells e
          \<and> glGetProgramInfoLog_result e (glCreateProgram_result e) = []
          \<and> (\<forall>n. \<not> glfwWindowShouldClose_result e n) \<longrightarrow>
        main e = None"
    by (simp add: main_never)
  have c11: "\<forall>w. \<not> list_ex is_error_query
                (init_calls @ window_calls @ context_calls w @ version_queries)"
    using start_no_query(4) by blast
  have c12: "\<not> list_ex is_error_query (banner_calls e)"
    by (rule start_no_query(5))
  have c18: "\<forall>errorNo. errorNo \<notin> {GL_INVALID_ENUM, GL_INVALID_VALUE, GL_INVALID_OPERATION,
                              GL_INVALID_FRAMEBUFFER_OPERATION, GL_OUT_OF_MEMORY} \<longrightarrow>
        errorString errorNo = ''UNKNOWN_ERROR''"
    using errorString_unknown by blast
  have c19: "\<forall>errorNo. string_local_capacity < length (errorString errorNo) \<longleftrightarrow>
        errorNo \<in> {GL_INVALID_VALUE, GL_INVALID_OPERATION,
                    GL_INVALID_FRAMEBUFFER_OPERATION, GL_OUT_OF_MEMORY}"
    using errorString_allocates by blast
  from c1 c2 c3 c4 c5 c6 c7 c8 c9 c10 c11 c12 errorString_names c18 c19
  show ?thesis
    by (intro conjI)
qed

theorem error_query_once_witness:
  "GLDebug_at_114 example_env
     = ([glGetError GL_INVALID_ENUM,
         cerr [Str ''GL_INVALID_ENUM'', Str '' - '', Str ''main.cpp'', Str '' : '', Num 114],
         glGetError GL_NO_ERROR],
        None)
   \<and> (\<exists>rest. main example_env
         = Some (Exit 0,
                 init_calls @ window_calls @ context_calls 1 @ version_queries
                 @ fst (GLDebug_at_114 example_env) @ banner_calls example_env @ rest)
        \<and> list_ex is_gl_call rest
        \<and> \<not> list_ex is_error_query rest)"
proof -
  note facts = error_query_once [of example_env]
  have pending: "pending_errors example_env = [GL_INVALID_ENUM]"
    by (simp add: pending_errors_def example_env_def GL_INVALID_ENUM_def GL_NO_ERROR_def)
  have name: "FILE_macro example_env = ''main.cpp''"
    by (simp add: example_env_def)
  from facts [THEN conjunct2, THEN conjunct2, THEN conjunct2, THEN conjunct1]
    example_env_fields(4)
  have debug: "GLDebug_at_114 example_env
     = ([glGetError GL_INVALID_ENUM,
         cerr [Str ''GL_INVALID_ENUM'', Str '' - '', Str ''main.cpp'', Str '' : '', Num 114],
         glGetError GL_NO_ERROR],
        None)"
    by (simp add: pending name errorString_names)
  have heap: "224 * 256 \<le> heap_cells example_env"
    using example_env_fields(5) by simp
  have reach: "glfwInit_result example_env \<and> glfwCreateWindow_result example_env = Some 1
          \<and> glewInit_result example_env
          \<and> \<not> string_allocation_fails example_env \<and> 224 * 256 \<le> heap_cells example_env
          \<and> glGetProgramInfoLog_result example_env (glCreateProgram_result example_env) = []
          \<and> (\<forall>j<2. \<not> glfwWindowShouldClose_result example_env j)
          \<and> glfwWindowShouldClose_result example_env 2"
    using example_env_fields heap by (intro conjI)
  from facts [THEN conjunct2, THEN conjunct2, THEN conjunct2, THEN conjunct2, THEN conjunct2,
      THEN conjunct2, THEN conjunct2, THEN conjunct2, THEN conjunct1, rule_format, OF reach]
  have run: "\<exists>rest. main example_env
         = Some (Exit 0,
                 init_calls @ window_calls @ context_calls 1 @ version_queries
                 @ fst (GLDebug_at_114 example_env) @ banner_calls example_env @ rest)
        \<and> list_ex is_gl_call rest
        \<and> \<not> list_ex is_error_query rest" .
  from debug run show ?thesis by (intro conjI)
qed

subsection \<open>Shader diagnostics and the link\<close>











end
